theory Spec2Isabelle
  imports Complex_Main "HOL-Library.AList" "HOL-Library.Char_ord" "HOL-Library.List_Lexorder"
begin

section \<open>The discussion REST API layer (lms/djangoapps/discussion/rest\_api/api.py)\<close>

text \<open>
  The module sits between the HTTP views and the remote comment service. Every function
  of the module that the properties below talk about is embedded here as a HOL function.
  The collaborators that live outside the module (the comment service client, the course
  store, the serializers, the action forms, the permission helpers) are the fields of one
  record \<open>env\<close>, passed to every function. A Python exception is a value \<open>Inl e\<close>;
  the calls that change something outside (save, vote, follow, signals, tracking events)
  are recorded, in order, in the list of events a function returns with its result.
  A leading underscore of a source name is written \<open>p_\<close>.
\<close>

subsection \<open>Python values and dictionaries\<close>

datatype pyval =
    PNone
  | PBool bool
  | PInt int
  | PStr string
  | PDict "(string \<times> pyval) list"

text \<open>A dictionary keeps its insertion order: an association list with distinct keys.\<close>

type_synonym pydict = "(string \<times> pyval) list"

fun truthy :: "pyval \<Rightarrow> bool" where
  "truthy PNone = False"
| "truthy (PBool b) = b"
| "truthy (PInt n) = (n \<noteq> 0)"
| "truthy (PStr s) = (s \<noteq> [])"
| "truthy (PDict d) = (d \<noteq> [])"

text \<open>Python's \<open>==\<close>: a bool is an int (\<open>True == 1\<close>), everything else compares by value.\<close>

fun py_eq :: "pyval \<Rightarrow> pyval \<Rightarrow> bool" where
  "py_eq (PBool a) (PInt n) = ((if a then 1 else 0) = n)"
| "py_eq (PInt n) (PBool a) = ((if a then 1 else 0) = n)"
| "py_eq x y = (x = y)"

datatype error =
    CourseNotFoundError
  | DiscussionDisabledError
  | ThreadNotFoundError
  | CommentNotFoundError
  | DiscussionNotFoundError string
  | PageNotFoundError
  | PermissionDenied
  | ValidationError "(string \<times> string list) list"
  | DiscussionBlackOutException
  | ValueError
  | CommentClientRequestError
  | KeyError string
  | TypeError
  | IndexError
  | ZeroDivisionError

text \<open>\<open>d[k]\<close> raises KeyError on a missing key; \<open>d[k] = v\<close> replaces in place or appends.\<close>

definition getitem :: "pydict \<Rightarrow> string \<Rightarrow> error + pyval" where
  "getitem d k = (case map_of d k of None \<Rightarrow> Inl (KeyError k) | Some v \<Rightarrow> Inr v)"

definition setitem :: "pydict \<Rightarrow> string \<Rightarrow> pyval \<Rightarrow> pydict" where
  "setitem d k v = AList.update k v d"

text \<open>\<open>dict(pairs)\<close>: a later pair overrides an earlier one with the same key.\<close>

definition py_dict :: "('k \<times> 'v) list \<Rightarrow> ('k \<times> 'v) list" where
  "py_dict pairs = foldl (\<lambda>acc (k, v). AList.update k v acc) [] pairs"

text \<open>\<open>x += d\<close> on a number; a bool counts as 0 or 1, anything else is a TypeError.\<close>

fun py_add :: "pyval \<Rightarrow> int \<Rightarrow> error + pyval" where
  "py_add (PInt n) d = Inr (PInt (n + d))"
| "py_add (PBool b) d = Inr (PInt ((if b then 1 else 0) + d))"
| "py_add _ d = Inl TypeError"

text \<open>
  Slicing \<open>xs[a:b]\<close>: a negative bound counts from the end, and both bounds are clamped
  to the list.
\<close>

definition slice_bound :: "nat \<Rightarrow> int \<Rightarrow> nat" where
  "slice_bound n i = (if i < 0 then nat (max 0 (int n + i)) else min n (nat i))"

definition py_slice :: "'a list \<Rightarrow> int \<Rightarrow> int \<Rightarrow> 'a list" where
  "py_slice xs a b =
     (let lo = slice_bound (length xs) a; hi = slice_bound (length xs) b
      in if lo < hi then take (hi - lo) (drop lo xs) else [])"

fun join :: "string \<Rightarrow> string list \<Rightarrow> string" where
  "join sep [] = []"
| "join sep [x] = x"
| "join sep (x # y # ys) = x @ sep @ join sep (y # ys)"

text \<open>\<open>str(n)\<close> for an integer.\<close>

fun str_nat :: "nat \<Rightarrow> string" where
  "str_nat n =
     (if n < 10 then [char_of (48 + n)] else str_nat (n div 10) @ [char_of (48 + n mod 10)])"

declare str_nat.simps [simp del]

definition str_int :: "int \<Rightarrow> string" where
  "str_int i = (if i < 0 then CHR ''-'' # str_nat (nat (- i)) else str_nat (nat i))"

fun split_on :: "char \<Rightarrow> string \<Rightarrow> string list" where
  "split_on c [] = [[]]"
| "split_on c (x # xs) =
     (if x = c then [] # split_on c xs
      else (case split_on c xs of [] \<Rightarrow> [[x]] | w # ws \<Rightarrow> (x # w) # ws))"

subsection \<open>The data model\<close>

record user =
  user_id :: int
  username :: string

record request =
  request_user :: user

datatype cc_comment =
  Comment (comment_id: string) (comment_thread_id: string) (comment_user_id: string)
    (comment_children: "cc_comment list")

record cc_thread =
  thread_id :: string
  course_id :: string
  group_id :: "int option"
  commentable_id :: string
  thread_type :: string
  is_closed :: bool
  is_read :: bool
  thread_user_id :: string
  children :: "cc_comment list"
  resp_total :: int
  endorsed_responses :: "cc_comment list"
  non_endorsed_responses :: "cc_comment list"
  non_endorsed_resp_total :: int

text \<open>What the handlers call \<open>cc_content\<close>: a thread or a comment of the comment service.\<close>

datatype cc_content = CCThread cc_thread | CCComment cc_comment

fun content_type :: "cc_content \<Rightarrow> string" where
  "content_type (CCThread t) = ''thread''"
| "content_type (CCComment c) = ''comment''"

fun content_id :: "cc_content \<Rightarrow> string" where
  "content_id (CCThread t) = thread_id t"
| "content_id (CCComment c) = comment_id c"

text \<open>\<open>cc_content['read']\<close>: only a thread carries the read flag.\<close>

fun content_read :: "cc_content \<Rightarrow> error + bool" where
  "content_read (CCThread t) = Inr (is_read t)"
| "content_read (CCComment c) = Inl (KeyError ''read'')"

record topic_entry =
  entry_id :: string
  entry_sort_key :: "string option"

record course =
  course_key :: string
  discussion_topics :: "(string \<times> topic_entry) list"

record xblock =
  discussion_id :: string
  discussion_category :: string
  discussion_target :: string
  xblock_sort_key :: "string option"

text \<open>The serializer context: \<open>cc_requester\<close> is the requester's id at the comment service.\<close>

record request_context =
  ctx_course :: course
  ctx_request :: request
  is_requester_privileged :: bool
  cc_requester :: string

text \<open>A page of threads as the comment service returns it.\<close>

record paginated_results =
  collection :: "cc_thread list"
  result_page :: int
  result_num_pages :: int
  thread_count :: int
  corrected_text :: pyval

text \<open>
  \<open>DiscussionAPIPagination(request, page_num, num_pages, result_count)\<close> and the
  response it wraps around the data.
\<close>

record 'a paginated_response =
  page_num :: int
  num_pages :: int
  result_count :: int
  payload :: 'a

record account =
  account_username :: string
  profile_image :: pyval

datatype discussion_topic =
  DiscussionTopic (topic_id: "string option") (topic_name: string) (thread_list_url: string)
    (topic_children: "discussion_topic list") (thread_counts: "(string \<times> int) list option")

text \<open>The stored discussion settings of a course are an opaque handle here.\<close>

type_synonym discussion_settings = nat

datatype event =
    SerializerSave cc_content
  | SignalSent string user cc_content
  | Follow string cc_content
  | Unfollow string cc_content
  | FlagAbuse string cc_content
  | UnFlagAbuse string cc_content
  | Vote string cc_content string
  | Unvote string cc_content
  | MarkRead string cc_content
  | Pin string string
  | UnPin string string
  | Delete cc_content
  | TrackVotedEvent request course cc_content string bool
  | TrackCommentCreatedEvent request course cc_content string bool

type_synonym 'a outcome = "(error + 'a) \<times> event list"

subsection \<open>The collaborators outside the module\<close>

text \<open>
  A retrieval from the comment service can fail with CommentClientRequestError, which
  the module catches; the other collaborators are called without a handler and are
  functions here. The serializers and forms take the instance (if any) and the data;
  \<open>*_errors\<close> is empty exactly when \<open>is_valid()\<close> holds, \<open>*_save\<close> gives the saved
  instance and \<open>*_data\<close> the serialized payload. \<open>set_iteration\<close> is the order in
  which the Python runtime iterates over a set of strings, which the language does not
  fix.
\<close>

record env =
  get_course_with_access :: "user \<Rightarrow> string \<Rightarrow> course option"
  discussion_tab_enabled :: "course \<Rightarrow> user \<Rightarrow> bool"
  get_context :: "course \<Rightarrow> request \<Rightarrow> cc_thread option \<Rightarrow> request_context"
  course_discussion_settings :: "string \<Rightarrow> discussion_settings"
  is_commentable_divided :: "string \<Rightarrow> string \<Rightarrow> discussion_settings \<Rightarrow> bool"
  get_group_id_for_user :: "user \<Rightarrow> discussion_settings \<Rightarrow> int option"
  discussion_open_for_user :: "course \<Rightarrow> user \<Rightarrow> bool"
  thread_retrieve :: "pyval \<Rightarrow> pydict \<Rightarrow> error + cc_thread"
  comment_retrieve :: "pyval \<Rightarrow> error + cc_comment"
  thread_search :: "pydict \<Rightarrow> paginated_results"
  subscribed_threads :: "string \<Rightarrow> pydict \<Rightarrow> paginated_results"
  get_course_commentable_counts :: "string \<Rightarrow> (string \<times> (string \<times> int) list) list"
  user_id_by_username :: "string \<Rightarrow> int option"
  get_account_settings :: "request \<Rightarrow> string list \<Rightarrow> account list"
  get_accessible_discussion_xblocks :: "course \<Rightarrow> user \<Rightarrow> xblock list"
  build_absolute_uri :: "request \<Rightarrow> string \<Rightarrow> (string \<times> pyval) list \<Rightarrow> string"
  thread_serializer_data :: "request_context \<Rightarrow> cc_content \<Rightarrow> pydict"
  comment_serializer_data :: "request_context \<Rightarrow> cc_content \<Rightarrow> pydict"
  topic_serializer_data :: "discussion_topic \<Rightarrow> pyval"
  thread_serializer_errors ::
    "request_context \<Rightarrow> cc_content option \<Rightarrow> pydict \<Rightarrow> (string \<times> string list) list"
  thread_serializer_save :: "request_context \<Rightarrow> cc_content option \<Rightarrow> pydict \<Rightarrow> cc_content"
  comment_serializer_errors ::
    "request_context \<Rightarrow> cc_content option \<Rightarrow> pydict \<Rightarrow> (string \<times> string list) list"
  comment_serializer_save :: "request_context \<Rightarrow> cc_content option \<Rightarrow> pydict \<Rightarrow> cc_content"
  thread_actions_fields :: "string list"
  thread_actions_errors :: "pydict \<Rightarrow> (string \<times> string list) list"
  thread_actions_cleaned_data :: "pydict \<Rightarrow> pydict"
  comment_actions_fields :: "string list"
  comment_actions_errors :: "pydict \<Rightarrow> (string \<times> string list) list"
  comment_actions_cleaned_data :: "pydict \<Rightarrow> pydict"
  get_editable_fields :: "cc_content \<Rightarrow> request_context \<Rightarrow> string list"
  get_initializable_comment_fields :: "request_context \<Rightarrow> string list"
  can_delete :: "cc_content \<Rightarrow> request_context \<Rightarrow> bool"
  set_iteration :: "string set \<Rightarrow> string list"

subsection \<open>Course and thread resolution\<close>

definition p_get_course :: "env \<Rightarrow> string \<Rightarrow> user \<Rightarrow> error + course" where
  "p_get_course env ckey usr =
     (case get_course_with_access env usr ckey of
        None \<Rightarrow> Inl CourseNotFoundError
      | Some crs \<Rightarrow>
          if \<not> discussion_tab_enabled env crs usr then Inl DiscussionDisabledError
          else Inr crs)"

text \<open>\<open>except CommentClientRequestError as err: raise X from err\<close>.\<close>

definition on_request_error :: "error \<Rightarrow> error + 'a \<Rightarrow> error + 'a" where
  "on_request_error x r =
     (case r of Inl e \<Rightarrow> (if e = CommentClientRequestError then Inl x else Inl e)
      | Inr v \<Rightarrow> Inr v)"

definition set_default :: "pydict \<Rightarrow> string \<Rightarrow> pyval \<Rightarrow> pydict" where
  "set_default d k v = (if map_of d k = None then setitem d k v else d)"

text \<open>A group id is truthy when it is set and not zero.\<close>

definition group_truthy :: "int option \<Rightarrow> bool" where
  "group_truthy g = (case g of None \<Rightarrow> False | Some n \<Rightarrow> n \<noteq> 0)"

definition p_get_thread_and_context ::
  "env \<Rightarrow> request \<Rightarrow> pyval \<Rightarrow> pydict \<Rightarrow> error + (cc_thread \<times> request_context)" where
  "p_get_thread_and_context env req tid retrieve_kwargs =
     on_request_error ThreadNotFoundError
       (let kwargs = set_default (set_default retrieve_kwargs ''with_responses'' (PBool False))
                       ''mark_as_read'' (PBool False)
        in case thread_retrieve env tid kwargs of
             Inl e \<Rightarrow> Inl e
           | Inr cc_thr \<Rightarrow>
              (case p_get_course env (course_id cc_thr) (request_user req) of
                 Inl e \<Rightarrow> Inl e
               | Inr crs \<Rightarrow>
                  (let ctx = get_context env crs req (Some cc_thr);
                       settings = course_discussion_settings env (course_id cc_thr)
                   in if \<not> is_requester_privileged ctx \<and> group_truthy (group_id cc_thr) \<and>
                         is_commentable_divided env (course_key crs) (commentable_id cc_thr) settings
                      then (let requester_group_id =
                                  get_group_id_for_user env (request_user req) settings
                            in if requester_group_id \<noteq> None \<and>
                                  group_id cc_thr \<noteq> requester_group_id
                               then Inl ThreadNotFoundError
                               else Inr (cc_thr, ctx))
                      else Inr (cc_thr, ctx))))"

definition p_get_comment_and_context ::
  "env \<Rightarrow> request \<Rightarrow> pyval \<Rightarrow> error + (cc_comment \<times> request_context)" where
  "p_get_comment_and_context env req cid =
     on_request_error CommentNotFoundError
       (case comment_retrieve env cid of
          Inl e \<Rightarrow> Inl e
        | Inr cc_com \<Rightarrow>
           (case p_get_thread_and_context env req (PStr (comment_thread_id cc_com)) [] of
              Inl e \<Rightarrow> Inl e
            | Inr (thr, ctx) \<Rightarrow> Inr (cc_com, ctx)))"

subsection \<open>Serializing threads and comments\<close>

datatype discussion_entity = EntityThread | EntityComment

definition p_include_profile_image :: "string list option \<Rightarrow> bool" where
  "p_include_profile_image requested_fields =
     (case requested_fields of None \<Rightarrow> False
      | Some fs \<Rightarrow> fs \<noteq> [] \<and> ''profile_image'' \<in> set fs)"

definition p_get_user_profile_dict :: "env \<Rightarrow> request \<Rightarrow> string \<Rightarrow> (string \<times> account) list" where
  "p_get_user_profile_dict env req usernames =
     (let username_list = (if usernames \<noteq> [] then split_on CHR '','' usernames else [])
      in py_dict (map (\<lambda>u. (account_username u, u)) (get_account_settings env req username_list)))"

definition p_user_profile :: "account \<Rightarrow> pyval" where
  "p_user_profile user_profile = PDict [(''profile'', PDict [(''image'', profile_image user_profile)])]"

text \<open>\<open>users[name] = _user_profile(username_profile_dict[name])\<close>.\<close>

fun add_user :: "pydict \<Rightarrow> pyval \<Rightarrow> (string \<times> account) list \<Rightarrow> error + pydict" where
  "add_user users (PStr name) profiles =
     (case map_of profiles name of
        None \<Rightarrow> Inl (KeyError name)
      | Some u \<Rightarrow> Inr (setitem users name (p_user_profile u)))"
| "add_user users _ profiles = Inl TypeError"

definition p_get_users ::
  "discussion_entity \<Rightarrow> pydict \<Rightarrow> (string \<times> account) list \<Rightarrow> error + pydict" where
  "p_get_users ety entity profiles =
     (case getitem entity ''author'' of
        Inl e \<Rightarrow> Inl e
      | Inr author \<Rightarrow>
         (case (if truthy author then add_user [] author profiles else Inr []) of
            Inl e \<Rightarrow> Inl e
          | Inr users \<Rightarrow>
             if ety = EntityComment then
               (case getitem entity ''endorsed'' of
                  Inl e \<Rightarrow> Inl e
                | Inr endorsed \<Rightarrow>
                   if truthy endorsed then
                     (case getitem entity ''endorsed_by'' of
                        Inl e \<Rightarrow> Inl e
                      | Inr endorsed_by \<Rightarrow>
                         if truthy endorsed_by then add_user users endorsed_by profiles
                         else Inr users)
                   else Inr users)
             else Inr users))"

text \<open>\<open>','.join(usernames)\<close> raises TypeError on an item that is not a string.\<close>

fun str_items :: "pyval list \<Rightarrow> error + string list" where
  "str_items [] = Inr []"
| "str_items (PStr s # xs) = (case str_items xs of Inl e \<Rightarrow> Inl e | Inr ss \<Rightarrow> Inr (s # ss))"
| "str_items (_ # xs) = Inl TypeError"

fun add_users ::
  "discussion_entity \<Rightarrow> (string \<times> account) list \<Rightarrow> pydict list \<Rightarrow> error + pydict list" where
  "add_users ety profiles [] = Inr []"
| "add_users ety profiles (entity # rest) =
     (case p_get_users ety entity profiles of
        Inl e \<Rightarrow> Inl e
      | Inr users \<Rightarrow>
         (case add_users ety profiles rest of
            Inl e \<Rightarrow> Inl e
          | Inr rest' \<Rightarrow> Inr (setitem entity ''users'' (PDict users) # rest')))"

definition p_add_additional_response_fields ::
  "env \<Rightarrow> request \<Rightarrow> pydict list \<Rightarrow> pyval list \<Rightarrow> discussion_entity \<Rightarrow> bool \<Rightarrow> error + pydict list" where
  "p_add_additional_response_fields env req serialized usernames ety include_profile_image =
     (if include_profile_image then
        (case str_items usernames of
           Inl e \<Rightarrow> Inl e
         | Inr names \<Rightarrow> add_users ety (p_get_user_profile_dict env req (join '','' names)) serialized)
      else Inr serialized)"

definition py_in :: "pyval \<Rightarrow> pyval list \<Rightarrow> bool" where
  "py_in x xs = list_ex (py_eq x) xs"

text \<open>The usernames gathered over the serialized entities, each once, in order.\<close>

fun collect_usernames :: "pydict list \<Rightarrow> pyval list \<Rightarrow> error + pyval list" where
  "collect_usernames [] usernames = Inr usernames"
| "collect_usernames (ser # rest) usernames =
     (case getitem ser ''author'' of
        Inl e \<Rightarrow> Inl e
      | Inr author \<Rightarrow>
         (let u1 = (if truthy author \<and> \<not> py_in author usernames then usernames @ [author]
                    else usernames);
              u2 = (case map_of ser ''endorsed'' of
                      None \<Rightarrow> u1
                    | Some endorsed \<Rightarrow>
                       (case map_of ser ''endorsed_by'' of
                          None \<Rightarrow> u1
                        | Some endorsed_by \<Rightarrow>
                           if truthy endorsed \<and> truthy endorsed_by \<and> \<not> py_in endorsed_by u1
                           then u1 @ [endorsed_by] else u1))
          in collect_usernames rest u2))"

definition serialize_entity :: "env \<Rightarrow> request_context \<Rightarrow> discussion_entity \<Rightarrow> cc_content \<Rightarrow> pydict" where
  "serialize_entity env ctx ety entity =
     (case ety of
        EntityThread \<Rightarrow> thread_serializer_data env ctx entity
      | EntityComment \<Rightarrow> comment_serializer_data env ctx entity)"

text \<open>
  The serializers only read, so serializing every entity first and gathering the
  usernames afterwards is the loop of the source.
\<close>

definition p_serialize_discussion_entities ::
  "env \<Rightarrow> request \<Rightarrow> request_context \<Rightarrow> cc_content list \<Rightarrow> string list option \<Rightarrow>
   discussion_entity \<Rightarrow> error + pydict list" where
  "p_serialize_discussion_entities env req ctx discussion_entities requested_fields ety =
     (let include_profile_image = p_include_profile_image requested_fields;
          results = map (serialize_entity env ctx ety) discussion_entities
      in case (if include_profile_image then collect_usernames results [] else Inr []) of
           Inl e \<Rightarrow> Inl e
         | Inr usernames \<Rightarrow>
             p_add_additional_response_fields env req results usernames ety include_profile_image)"

subsection \<open>Listing threads\<close>

text \<open>
  The arguments of \<open>get_thread_list\<close> after the request and the course key.
  \<open>following\<close> is a plain flag: the source only tests its truth, so None is False.
\<close>

record thread_list_args =
  page :: int
  page_size :: int
  topic_id_list :: "string list option"
  text_search :: "string option"
  following :: bool
  author :: "string option"
  thread_type_arg :: "string option"
  flagged :: "bool option"
  view :: "string option"
  order_by :: string
  order_direction :: string
  requested_fields :: "string list option"
  count_flagged :: "bool option"

record thread_list_payload =
  results :: "pydict list"
  text_search_rewrite :: pyval

definition opt_str :: "string option \<Rightarrow> pyval" where
  "opt_str v = (case v of None \<Rightarrow> PNone | Some s \<Rightarrow> PStr s)"

definition opt_bool :: "bool option \<Rightarrow> pyval" where
  "opt_bool v = (case v of None \<Rightarrow> PNone | Some b \<Rightarrow> PBool b)"

definition opt_int :: "int option \<Rightarrow> pyval" where
  "opt_int v = (case v of None \<Rightarrow> PNone | Some n \<Rightarrow> PInt n)"

definition cc_map :: "(string \<times> string) list" where
  "cc_map = [(''last_activity_at'', ''activity''), (''comment_count'', ''comments''),
             (''vote_count'', ''votes'')]"

definition quoted :: "string \<Rightarrow> string" where
  "quoted s = [CHR 0x27] @ s @ [CHR 0x27]"

definition order_by_message :: "string \<Rightarrow> string" where
  "order_by_message v =
     ''Invalid value. '' @ quoted v @ '' must be '' @ quoted ''last_activity_at'' @ '', '' @
     quoted ''comment_count'' @ '', or '' @ quoted ''vote_count''"

definition order_direction_message :: "string \<Rightarrow> string" where
  "order_direction_message v = ''Invalid value. '' @ quoted v @ '' must be '' @ quoted ''desc''"

text \<open>The query sent to the comment service, before the view and the search fields.\<close>

definition base_query_params ::
  "env \<Rightarrow> request \<Rightarrow> course \<Rightarrow> request_context \<Rightarrow> thread_list_args \<Rightarrow> string \<Rightarrow> int option \<Rightarrow> pydict" where
  "base_query_params env req crs ctx a cc_sort_key author_id =
     [(''user_id'', PStr (str_int (user_id (request_user req)))),
      (''group_id'',
         (if is_requester_privileged ctx then PNone
          else opt_int (get_group_id_for_user env (request_user req)
                          (course_discussion_settings env (course_key crs))))),
      (''page'', PInt (page a)),
      (''per_page'', PInt (page_size a)),
      (''text'', opt_str (text_search a)),
      (''sort_key'', PStr cc_sort_key),
      (''author_id'', opt_int author_id),
      (''flagged'', opt_bool (flagged a)),
      (''thread_type'', opt_str (thread_type_arg a)),
      (''count_flagged'', opt_bool (count_flagged a))]"

text \<open>
  The \<open>if view:\<close> block. On a value that is neither \<open>unread\<close> nor \<open>unanswered\<close> the source
  builds a ValidationError and drops it (there is no \<open>raise\<close>): the query is unchanged.
\<close>

definition apply_view :: "string option \<Rightarrow> pydict \<Rightarrow> pydict" where
  "apply_view v query_params =
     (case v of
        None \<Rightarrow> query_params
      | Some w \<Rightarrow>
          if w = [] then query_params
          else if w \<in> set [''unread'', ''unanswered''] then setitem query_params w (PStr ''true'')
          else query_params)"

definition empty_thread_page :: "thread_list_payload paginated_response" where
  "empty_thread_page =
     \<lparr>page_num = 0, num_pages = 1, result_count = 0,
      payload = \<lparr>results = [], text_search_rewrite = PNone\<rparr>\<rparr>"

text \<open>The call to the comment service: the subscribed threads, or a search.\<close>

definition fetch_threads ::
  "env \<Rightarrow> request \<Rightarrow> course \<Rightarrow> request_context \<Rightarrow> thread_list_args \<Rightarrow> string \<Rightarrow> int option \<Rightarrow>
   paginated_results" where
  "fetch_threads env req crs ctx a cc_sort_key author_id =
     (let query_params =
            apply_view (view a) (base_query_params env req crs ctx a cc_sort_key author_id)
      in if following a then subscribed_threads env (cc_requester ctx) query_params
         else thread_search env
                (setitem
                   (setitem
                      (setitem query_params ''course_id'' (PStr (course_key crs)))
                      ''commentable_ids''
                      (case topic_id_list a of
                         None \<Rightarrow> PNone
                       | Some ids \<Rightarrow> if ids = [] then PNone else PStr (join '','' ids)))
                   ''text'' (opt_str (text_search a))))"

text \<open>
  The author filter: \<open>Some None\<close> without a filter, \<open>Some (Some id)\<close> for a known
  username, \<open>None\<close> when \<open>User.DoesNotExist\<close> is raised.
\<close>

definition resolve_author :: "env \<Rightarrow> string option \<Rightarrow> int option option" where
  "resolve_author env auth =
     (case auth of
        None \<Rightarrow> Some None
      | Some name \<Rightarrow>
          if name = [] then Some None
          else (case user_id_by_username env name of None \<Rightarrow> None | Some uid \<Rightarrow> Some (Some uid)))"

text \<open>The part of \<open>get_thread_list\<close> after the author has been resolved.\<close>

definition thread_list_query ::
  "env \<Rightarrow> request \<Rightarrow> course \<Rightarrow> request_context \<Rightarrow> thread_list_args \<Rightarrow> string \<Rightarrow> int option \<Rightarrow>
   error + thread_list_payload paginated_response" where
  "thread_list_query env req crs ctx a cc_sort_key author_id =
     (if count_flagged a = Some True \<and> \<not> is_requester_privileged ctx then Inl PermissionDenied
      else
        (let paginated_results = fetch_threads env req crs ctx a cc_sort_key author_id
         in if result_page paginated_results \<noteq> page a then Inl PageNotFoundError
            else
              (case p_serialize_discussion_entities env req ctx
                      (map CCThread (collection paginated_results)) (requested_fields a) EntityThread of
                 Inl e \<Rightarrow> Inl e
               | Inr rs \<Rightarrow>
                   Inr \<lparr>page_num = result_page paginated_results,
                        num_pages = result_num_pages paginated_results,
                        result_count = thread_count paginated_results,
                        payload = \<lparr>results = rs,
                                   text_search_rewrite = corrected_text paginated_results\<rparr>\<rparr>)))"

definition exclusive_param_count :: "thread_list_args \<Rightarrow> nat" where
  "exclusive_param_count a =
     length (filter (\<lambda>b. b)
       [(case topic_id_list a of None \<Rightarrow> False | Some ids \<Rightarrow> ids \<noteq> []),
        (case text_search a of None \<Rightarrow> False | Some t \<Rightarrow> t \<noteq> []),
        following a])"

definition get_thread_list ::
  "env \<Rightarrow> request \<Rightarrow> string \<Rightarrow> thread_list_args \<Rightarrow> error + thread_list_payload paginated_response" where
  "get_thread_list env req ckey a =
     (if exclusive_param_count a > 1 then Inl ValueError
      else
        (case map_of cc_map (order_by a) of
           None \<Rightarrow> Inl (ValidationError [(''order_by'', [order_by_message (order_by a)])])
         | Some cc_sort_key \<Rightarrow>
            if order_direction a \<noteq> ''desc''
            then Inl (ValidationError
                        [(''order_direction'', [order_direction_message (order_direction a)])])
            else
              (case p_get_course env ckey (request_user req) of
                 Inl e \<Rightarrow> Inl e
               | Inr crs \<Rightarrow>
                  (let ctx = get_context env crs req None
                   in case resolve_author env (author a) of
                        None \<Rightarrow> Inr empty_thread_page
                      | Some author_id \<Rightarrow>
                          thread_list_query env req crs ctx a cc_sort_key author_id))))"

subsection \<open>Listing comments\<close>

text \<open>
  The responses of the requested page and their resp_count, after the check of \<open>endorsed\<close>
  against the thread type.
\<close>

definition select_responses ::
  "cc_thread \<Rightarrow> bool option \<Rightarrow> int \<Rightarrow> int \<Rightarrow> error + (cc_comment list \<times> int)" where
  "select_responses cc_thr endorsed response_skip psize =
     (if thread_type cc_thr = ''question'' then
        (case endorsed of
           None \<Rightarrow> Inl (ValidationError
                         [(''endorsed'', [''This field is required for question threads.''])])
         | Some True \<Rightarrow>
             Inr (py_slice (endorsed_responses cc_thr) response_skip (response_skip + psize),
                  int (length (endorsed_responses cc_thr)))
         | Some False \<Rightarrow> Inr (non_endorsed_responses cc_thr, non_endorsed_resp_total cc_thr))
      else
        (case endorsed of
           Some b \<Rightarrow> Inl (ValidationError
                           [(''endorsed'',
                             [''This field may not be specified for discussion threads.''])])
         | None \<Rightarrow> Inr (children cc_thr, resp_total cc_thr)))"

text \<open>\<open>(resp_count + page_size - 1) // page_size if resp_count else 1\<close>.\<close>

definition page_count :: "int \<Rightarrow> int \<Rightarrow> error + int" where
  "page_count resp_count psize =
     (if resp_count \<noteq> 0 then
        (if psize = 0 then Inl ZeroDivisionError else Inr ((resp_count + psize - 1) div psize))
      else Inr 1)"

definition comment_list_kwargs :: "request \<Rightarrow> int \<Rightarrow> int \<Rightarrow> pydict" where
  "comment_list_kwargs req response_skip psize =
     [(''with_responses'', PBool True), (''recursive'', PBool False),
      (''user_id'', PInt (user_id (request_user req))),
      (''response_skip'', PInt response_skip), (''response_limit'', PInt psize)]"

definition get_comment_list ::
  "env \<Rightarrow> request \<Rightarrow> string \<Rightarrow> bool option \<Rightarrow> int \<Rightarrow> int \<Rightarrow> string list option \<Rightarrow>
   error + pydict list paginated_response" where
  "get_comment_list env req tid endorsed pg psize rfields =
     (let response_skip = psize * (pg - 1)
      in case p_get_thread_and_context env req (PStr tid)
                (comment_list_kwargs req response_skip psize) of
           Inl e \<Rightarrow> Inl e
         | Inr (cc_thr, ctx) \<Rightarrow>
            (case select_responses cc_thr endorsed response_skip psize of
               Inl e \<Rightarrow> Inl e
             | Inr (responses, resp_count) \<Rightarrow>
                 if responses = [] \<and> pg \<noteq> 1 then Inl PageNotFoundError
                 else
                   (case page_count resp_count psize of
                      Inl e \<Rightarrow> Inl e
                    | Inr n \<Rightarrow>
                       (case p_serialize_discussion_entities env req ctx (map CCComment responses)
                               rfields EntityComment of
                          Inl e \<Rightarrow> Inl e
                        | Inr rs \<Rightarrow>
                            Inr \<lparr>page_num = pg, num_pages = n, result_count = resp_count,
                                 payload = rs\<rparr>))))"

definition get_thread :: "env \<Rightarrow> request \<Rightarrow> string \<Rightarrow> string list option \<Rightarrow> error + pydict" where
  "get_thread env req tid rfields =
     (case p_get_thread_and_context env req (PStr tid)
             [(''with_responses'', PBool True),
              (''user_id'', PStr (str_int (user_id (request_user req))))] of
        Inl e \<Rightarrow> Inl e
      | Inr (cc_thr, ctx) \<Rightarrow>
         (case p_serialize_discussion_entities env req ctx [CCThread cc_thr] rfields EntityThread of
            Inl e \<Rightarrow> Inl e
          | Inr rs \<Rightarrow> (case rs of [] \<Rightarrow> Inl IndexError | r # _ \<Rightarrow> Inr r)))"

text \<open>The children of the response with the given id, or nothing when no response has it.\<close>

definition response_comments_of :: "cc_thread \<Rightarrow> string \<Rightarrow> cc_comment list" where
  "response_comments_of cc_thr cid =
     (let thread_responses =
            (if thread_type cc_thr = ''question''
             then endorsed_responses cc_thr @ non_endorsed_responses cc_thr
             else children cc_thr)
      in case find (\<lambda>response. comment_id response = cid) thread_responses of
           None \<Rightarrow> []
         | Some response \<Rightarrow> comment_children response)"

definition get_response_comments ::
  "env \<Rightarrow> request \<Rightarrow> string \<Rightarrow> int \<Rightarrow> int \<Rightarrow> string list option \<Rightarrow>
   error + pydict list paginated_response" where
  "get_response_comments env req cid pg psize rfields =
     on_request_error CommentNotFoundError
       (case comment_retrieve env (PStr cid) of
          Inl e \<Rightarrow> Inl e
        | Inr cc_com \<Rightarrow>
           (case p_get_thread_and_context env req (PStr (comment_thread_id cc_com))
                   [(''with_responses'', PBool True), (''recursive'', PBool True)] of
              Inl e \<Rightarrow> Inl e
            | Inr (cc_thr, ctx) \<Rightarrow>
               (let response_comments = response_comments_of cc_thr cid;
                    response_skip = psize * (pg - 1);
                    paged_response_comments =
                      py_slice response_comments response_skip (response_skip + psize)
                in if paged_response_comments = [] \<and> pg \<noteq> 1 then Inl PageNotFoundError
                   else
                     (case p_serialize_discussion_entities env req ctx
                             (map CCComment paged_response_comments) rfields EntityComment of
                        Inl e \<Rightarrow> Inl e
                      | Inr rs \<Rightarrow>
                         (let comments_count = int (length response_comments)
                          in case page_count comments_count psize of
                               Inl e \<Rightarrow> Inl e
                             | Inr n \<Rightarrow>
                                 Inr \<lparr>page_num = pg, num_pages = n, result_count = comments_count,
                                      payload = rs\<rparr>)))))"

subsection \<open>Field checks\<close>

definition p_check_fields :: "string list \<Rightarrow> pydict \<Rightarrow> string \<Rightarrow> error + unit" where
  "p_check_fields allowed_fields data message =
     (let non_allowed_fields =
            map (\<lambda>field. (field, [message]))
              (filter (\<lambda>field. field \<notin> set allowed_fields) (map fst data))
      in if non_allowed_fields \<noteq> [] then Inl (ValidationError non_allowed_fields) else Inr ())"

definition p_check_initializable_comment_fields ::
  "env \<Rightarrow> pydict \<Rightarrow> request_context \<Rightarrow> error + unit" where
  "p_check_initializable_comment_fields env data ctx =
     p_check_fields (get_initializable_comment_fields env ctx) data
       ''This field is not initializable.''"

definition p_check_editable_fields ::
  "env \<Rightarrow> cc_content \<Rightarrow> pydict \<Rightarrow> request_context \<Rightarrow> error + unit" where
  "p_check_editable_fields env cc data ctx =
     p_check_fields (get_editable_fields env cc ctx) data ''This field is not editable.''"

subsection \<open>The extra actions\<close>

definition p_handle_following_field :: "pyval \<Rightarrow> string \<Rightarrow> cc_content \<Rightarrow> event list" where
  "p_handle_following_field form_value usr cc =
     (if truthy form_value then [Follow usr cc] else [Unfollow usr cc])"

definition p_handle_abuse_flagged_field :: "pyval \<Rightarrow> string \<Rightarrow> cc_content \<Rightarrow> event list" where
  "p_handle_abuse_flagged_field form_value usr cc =
     (if truthy form_value then [FlagAbuse usr cc] else [UnFlagAbuse usr cc])"

text \<open>
  The signal and the vote go out before \<open>vote_count\<close> is touched, so they stay in the
  event list when the count is missing or not a number; the tracking event comes last.
\<close>

definition p_handle_voted_field ::
  "pyval \<Rightarrow> cc_content \<Rightarrow> pydict \<Rightarrow> request \<Rightarrow> request_context \<Rightarrow> pydict outcome" where
  "p_handle_voted_field form_value cc api_content req ctx =
     (let signal = (if content_type cc = ''thread'' then ''thread_voted'' else ''comment_voted'');
          sent = [SignalSent signal (request_user (ctx_request ctx)) cc,
                  (if truthy form_value then Vote (cc_requester ctx) cc ''up''
                   else Unvote (cc_requester ctx) cc)]
      in case getitem api_content ''vote_count'' of
           Inl e \<Rightarrow> (Inl e, sent)
         | Inr v \<Rightarrow>
            (case py_add v (if truthy form_value then 1 else - 1) of
               Inl e \<Rightarrow> (Inl e, sent)
             | Inr v' \<Rightarrow>
                 (Inr (setitem api_content ''vote_count'' v'),
                  sent @ [TrackVotedEvent req (ctx_course ctx) cc ''up'' (\<not> truthy form_value)])))"

definition p_handle_read_field :: "pydict \<Rightarrow> pyval \<Rightarrow> string \<Rightarrow> cc_content \<Rightarrow> pydict outcome" where
  "p_handle_read_field api_content form_value usr cc =
     (if truthy form_value then
        (case content_read cc of
           Inl e \<Rightarrow> (Inl e, [])
         | Inr r \<Rightarrow>
            if \<not> r then (Inr (setitem api_content ''unread_comment_count'' (PInt 0)), [MarkRead usr cc])
            else (Inr api_content, []))
      else (Inr api_content, []))"

definition p_handle_pinned_field :: "pyval \<Rightarrow> cc_content \<Rightarrow> string \<Rightarrow> event list" where
  "p_handle_pinned_field pin_thread cc usr =
     (if truthy pin_thread then [Pin usr (content_id cc)] else [UnPin usr (content_id cc)])"

text \<open>The \<open>if\<close>/\<open>elif\<close> chain over the field name.\<close>

definition dispatch_action ::
  "string \<Rightarrow> pyval \<Rightarrow> pydict \<Rightarrow> cc_content \<Rightarrow> request_context \<Rightarrow> request \<Rightarrow> pydict outcome" where
  "dispatch_action field form_value api_content cc ctx req =
     (if field = ''following''
        then (Inr api_content, p_handle_following_field form_value (cc_requester ctx) cc)
      else if field = ''abuse_flagged''
        then (Inr api_content, p_handle_abuse_flagged_field form_value (cc_requester ctx) cc)
      else if field = ''voted'' then p_handle_voted_field form_value cc api_content req ctx
      else if field = ''read'' then p_handle_read_field api_content form_value (cc_requester ctx) cc
      else if field = ''pinned''
        then (Inr api_content, p_handle_pinned_field form_value cc (cc_requester ctx))
      else (Inl (ValidationError [(field, [''Invalid Key''])]), []))"

text \<open>
  The loop over \<open>actions_form.cleaned_data.items()\<close>; the fourth argument is that list of
  items. The loop stops at the first exception, keeping the events sent so far.
\<close>

fun p_do_extra_actions ::
  "pydict \<Rightarrow> cc_content \<Rightarrow> string list \<Rightarrow> pydict \<Rightarrow> request_context \<Rightarrow> request \<Rightarrow> pydict outcome" where
  "p_do_extra_actions api_content cc request_fields [] ctx req = (Inr api_content, [])"
| "p_do_extra_actions api_content cc request_fields ((field, form_value) # rest) ctx req =
     (if field \<in> set request_fields then
        (case getitem api_content field of
           Inl e \<Rightarrow> (Inl e, [])
         | Inr current \<Rightarrow>
            if \<not> py_eq form_value current then
              (case dispatch_action field form_value (setitem api_content field form_value)
                      cc ctx req of
                 (Inl e, ev) \<Rightarrow> (Inl e, ev)
               | (Inr api', ev) \<Rightarrow>
                  (case p_do_extra_actions api' cc request_fields rest ctx req of
                     (r, ev') \<Rightarrow> (r, ev @ ev')))
            else p_do_extra_actions api_content cc request_fields rest ctx req)
      else p_do_extra_actions api_content cc request_fields rest ctx req)"

subsection \<open>Creating, updating and deleting\<close>

definition thread_id_required :: error where
  "thread_id_required = ValidationError [(''thread_id'', [''This field is required.''])]"

definition create_comment :: "env \<Rightarrow> request \<Rightarrow> pydict \<Rightarrow> pydict outcome" where
  "create_comment env req comment_data =
     (case map_of comment_data ''thread_id'' of
        None \<Rightarrow> (Inl thread_id_required, [])
      | Some tid \<Rightarrow>
         if \<not> truthy tid then (Inl thread_id_required, [])
         else
           (case p_get_thread_and_context env req tid [] of
              Inl e \<Rightarrow> (Inl e, [])
            | Inr (cc_thr, ctx) \<Rightarrow>
               if \<not> discussion_open_for_user env (ctx_course ctx) (request_user req)
               then (Inl DiscussionBlackOutException, [])
               else if is_closed cc_thr then (Inl PermissionDenied, [])
               else
                 (case p_check_initializable_comment_fields env comment_data ctx of
                    Inl e \<Rightarrow> (Inl e, [])
                  | Inr _ \<Rightarrow>
                     (let serializer_errors = comment_serializer_errors env ctx None comment_data;
                          form_errors = comment_actions_errors env comment_data
                      in if \<not> (serializer_errors = [] \<and> form_errors = [])
                         then (Inl (ValidationError (py_dict (serializer_errors @ form_errors))), [])
                         else
                           (let cc_com = comment_serializer_save env ctx None comment_data;
                                created = [SerializerSave cc_com,
                                           SignalSent ''comment_created'' (request_user req) cc_com]
                            in case p_do_extra_actions (comment_serializer_data env ctx cc_com)
                                      cc_com (map fst comment_data)
                                      (comment_actions_cleaned_data env comment_data) ctx req of
                                 (Inl e, ev) \<Rightarrow> (Inl e, created @ ev)
                               | (Inr api_comment, ev) \<Rightarrow>
                                   (Inr api_comment,
                                    created @ ev @
                                    [TrackCommentCreatedEvent req (ctx_course ctx) cc_com
                                       (commentable_id cc_thr) False]))))))"

text \<open>\<open>set(update_data) - set(actions_form.fields)\<close>: the keys that are not action fields.\<close>

definition core_fields :: "pydict \<Rightarrow> string list \<Rightarrow> string list" where
  "core_fields update_data action_fields =
     filter (\<lambda>field. field \<notin> set action_fields) (map fst update_data)"

definition update_thread :: "env \<Rightarrow> request \<Rightarrow> string \<Rightarrow> pydict \<Rightarrow> pydict outcome" where
  "update_thread env req tid update_data =
     (case p_get_thread_and_context env req (PStr tid) [(''with_responses'', PBool True)] of
        Inl e \<Rightarrow> (Inl e, [])
      | Inr (cc_thr, ctx) \<Rightarrow>
         (case p_check_editable_fields env (CCThread cc_thr) update_data ctx of
            Inl e \<Rightarrow> (Inl e, [])
          | Inr _ \<Rightarrow>
             (let serializer_errors =
                    thread_serializer_errors env ctx (Some (CCThread cc_thr)) update_data;
                  form_errors = thread_actions_errors env update_data
              in if \<not> (serializer_errors = [] \<and> form_errors = [])
                 then (Inl (ValidationError (py_dict (serializer_errors @ form_errors))), [])
                 else
                   (let saved = (core_fields update_data (thread_actions_fields env) \<noteq> []);
                        cc = (if saved
                              then thread_serializer_save env ctx (Some (CCThread cc_thr)) update_data
                              else CCThread cc_thr);
                        edited = (if saved
                                  then [SerializerSave cc,
                                        SignalSent ''thread_edited'' (request_user req) cc]
                                  else [])
                    in case p_do_extra_actions (thread_serializer_data env ctx cc) cc
                              (map fst update_data) (thread_actions_cleaned_data env update_data)
                              ctx req of
                         (Inl e, ev) \<Rightarrow> (Inl e, edited @ ev)
                       | (Inr api_thread, ev) \<Rightarrow>
                           (Inr (setitem (setitem api_thread ''read'' (PBool True))
                                   ''unread_comment_count'' (PInt 0)),
                            edited @ ev)))))"

definition update_comment :: "env \<Rightarrow> request \<Rightarrow> string \<Rightarrow> pydict \<Rightarrow> pydict outcome" where
  "update_comment env req cid update_data =
     (case p_get_comment_and_context env req (PStr cid) of
        Inl e \<Rightarrow> (Inl e, [])
      | Inr (cc_com, ctx) \<Rightarrow>
         (case p_check_editable_fields env (CCComment cc_com) update_data ctx of
            Inl e \<Rightarrow> (Inl e, [])
          | Inr _ \<Rightarrow>
             (let serializer_errors =
                    comment_serializer_errors env ctx (Some (CCComment cc_com)) update_data;
                  form_errors = comment_actions_errors env update_data
              in if \<not> (serializer_errors = [] \<and> form_errors = [])
                 then (Inl (ValidationError (py_dict (serializer_errors @ form_errors))), [])
                 else
                   (let saved = (core_fields update_data (comment_actions_fields env) \<noteq> []);
                        cc = (if saved
                              then comment_serializer_save env ctx (Some (CCComment cc_com)) update_data
                              else CCComment cc_com);
                        edited = (if saved
                                  then [SerializerSave cc,
                                        SignalSent ''comment_edited'' (request_user req) cc]
                                  else [])
                    in case p_do_extra_actions (comment_serializer_data env ctx cc) cc
                              (map fst update_data) (comment_actions_cleaned_data env update_data)
                              ctx req of
                         (Inl e, ev) \<Rightarrow> (Inl e, edited @ ev)
                       | (Inr api_comment, ev) \<Rightarrow> (Inr api_comment, edited @ ev)))))"

definition delete_thread :: "env \<Rightarrow> request \<Rightarrow> string \<Rightarrow> unit outcome" where
  "delete_thread env req tid =
     (case p_get_thread_and_context env req (PStr tid) [] of
        Inl e \<Rightarrow> (Inl e, [])
      | Inr (cc_thr, ctx) \<Rightarrow>
         if can_delete env (CCThread cc_thr) ctx
         then (Inr (), [Delete (CCThread cc_thr),
                        SignalSent ''thread_deleted'' (request_user req) (CCThread cc_thr)])
         else (Inl PermissionDenied, []))"

subsection \<open>Course topics\<close>

text \<open>
  \<open>topic_ids\<close> and the two sets of existing ids are Python sets, so HOL sets here.
\<close>

definition new_discussion_topic ::
  "string option \<Rightarrow> string \<Rightarrow> string \<Rightarrow> discussion_topic list option \<Rightarrow>
   (string \<times> int) list option \<Rightarrow> discussion_topic" where
  "new_discussion_topic tid name url childs counts =
     (let no_children = (case childs of None \<Rightarrow> True | Some cs \<Rightarrow> cs = []);
          no_counts = (case counts of None \<Rightarrow> True | Some c \<Rightarrow> c = [])
      in DiscussionTopic tid name url (case childs of None \<Rightarrow> [] | Some cs \<Rightarrow> cs)
           (if no_children \<and> no_counts then Some [(''discussion'', 0), (''question'', 0)]
            else counts))"

definition get_thread_list_url :: "env \<Rightarrow> request \<Rightarrow> string \<Rightarrow> string list \<Rightarrow> bool \<Rightarrow> string" where
  "get_thread_list_url env req ckey ids follow =
     build_absolute_uri env req ''thread-list''
       ([(''course_id'', PStr ckey)] @ map (\<lambda>t. (''topic_id'', PStr t)) ids @
        (if follow then [(''following'', PBool follow)] else []))"

text \<open>
  \<open>not topic_ids\<close>, \<open>not topic_ids or x in topic_ids\<close> and
  \<open>topic_ids and x in topic_ids\<close>.
\<close>

definition no_filter :: "string set option \<Rightarrow> bool" where
  "no_filter topic_ids = (case topic_ids of None \<Rightarrow> True | Some ids \<Rightarrow> ids = {})"

definition wanted :: "string set option \<Rightarrow> string \<Rightarrow> bool" where
  "wanted topic_ids x = (case topic_ids of None \<Rightarrow> True | Some ids \<Rightarrow> ids = {} \<or> x \<in> ids)"

definition named :: "string set option \<Rightarrow> string \<Rightarrow> bool" where
  "named topic_ids x = (case topic_ids of None \<Rightarrow> False | Some ids \<Rightarrow> ids \<noteq> {} \<and> x \<in> ids)"

definition get_xblock_sort_key :: "xblock \<Rightarrow> string" where
  "get_xblock_sort_key x =
     (case xblock_sort_key x of
        None \<Rightarrow> discussion_target x
      | Some k \<Rightarrow> if k = [] then discussion_target x else k)"

definition get_sorted_xblocks :: "xblock list \<Rightarrow> string \<Rightarrow> xblock list" where
  "get_sorted_xblocks xblocks category =
     sort_key get_xblock_sort_key (filter (\<lambda>x. discussion_category x = category) xblocks)"

definition get_courseware_topics ::
  "env \<Rightarrow> request \<Rightarrow> string \<Rightarrow> course \<Rightarrow> string set option \<Rightarrow>
   (string \<times> (string \<times> int) list) list \<Rightarrow> pyval list \<times> string set" where
  "get_courseware_topics env req ckey crs topic_ids counts =
     (let xblocks = get_accessible_discussion_xblocks env crs (request_user req);
          categories = sort (remdups (map discussion_category xblocks));
          category_topic = (\<lambda>category.
            let in_category = get_sorted_xblocks xblocks category;
                childs = map (\<lambda>x. new_discussion_topic (Some (discussion_id x))
                                      (discussion_target x)
                                      (get_thread_list_url env req ckey [discussion_id x] False)
                                      None (map_of counts (discussion_id x)))
                           (filter (\<lambda>x. wanted topic_ids (discussion_id x)) in_category)
            in if no_filter topic_ids \<or> childs \<noteq> []
               then [topic_serializer_data env
                       (new_discussion_topic None category
                          (get_thread_list_url env req ckey (map discussion_id in_category) False)
                          (Some childs) None)]
               else []);
          existing_topic_ids =
            set (filter (named topic_ids)
                   (map discussion_id (concat (map (get_sorted_xblocks xblocks) categories))))
      in (concat (map category_topic categories), existing_topic_ids))"

definition entry_key :: "string \<times> topic_entry \<Rightarrow> string" where
  "entry_key item = (case entry_sort_key (snd item) of None \<Rightarrow> fst item | Some k \<Rightarrow> k)"

definition get_non_courseware_topics ::
  "env \<Rightarrow> request \<Rightarrow> string \<Rightarrow> course \<Rightarrow> string set option \<Rightarrow>
   (string \<times> (string \<times> int) list) list \<Rightarrow> pyval list \<times> string set" where
  "get_non_courseware_topics env req ckey crs topic_ids counts =
     (let sorted_topics = sort_key entry_key (discussion_topics crs);
          topics = map (\<lambda>(name, entry).
                     topic_serializer_data env
                       (new_discussion_topic (Some (entry_id entry)) name
                          (get_thread_list_url env req ckey [entry_id entry] False)
                          None (map_of counts (entry_id entry))))
                     (filter (\<lambda>(name, entry). wanted topic_ids (entry_id entry)) sorted_topics);
          existing_topic_ids =
            set (filter (named topic_ids) (map (\<lambda>(name, entry). entry_id entry) sorted_topics))
      in (topics, existing_topic_ids))"

record course_topics =
  courseware_topics :: "pyval list"
  non_courseware_topics :: "pyval list"

text \<open>
  \<open>"Discussion not found for '{}'.".format(", ".join(str(id) for id in ids))\<close>, for the
  ids in the order of the iteration.
\<close>

definition not_found_message :: "string list \<Rightarrow> string" where
  "not_found_message ids = ''Discussion not found for '' @ quoted (join '', '' ids) @ ''.''"

definition get_course_topics ::
  "env \<Rightarrow> request \<Rightarrow> string \<Rightarrow> string set option \<Rightarrow> error + course_topics" where
  "get_course_topics env req ckey topic_ids =
     (case p_get_course env ckey (request_user req) of
        Inl e \<Rightarrow> Inl e
      | Inr crs \<Rightarrow>
         (let counts = get_course_commentable_counts env (course_key crs);
              (cw_topics, existing_courseware_topic_ids) =
                 get_courseware_topics env req ckey crs topic_ids counts;
              (ncw_topics, existing_non_courseware_topic_ids) =
                 get_non_courseware_topics env req ckey crs topic_ids counts;
              not_found_topic_ids =
                 (case topic_ids of
                    None \<Rightarrow> {}
                  | Some ids \<Rightarrow>
                      ids - (existing_courseware_topic_ids \<union> existing_non_courseware_topic_ids))
          in if \<not> no_filter topic_ids \<and> not_found_topic_ids \<noteq> {}
             then Inl (DiscussionNotFoundError
                         (not_found_message (set_iteration env not_found_topic_ids)))
             else Inr \<lparr>courseware_topics = cw_topics, non_courseware_topics = ncw_topics\<rparr>))"

subsection \<open>A small course, used for the concrete runs below\<close>

text \<open>
  One course with the freestanding topic \<open>t1\<close> (General) and the courseware topic \<open>t2\<close>
  (Week 1), which is divided by group. Alice is a learner of group 2, Mo a moderator.
  Thread \<open>th1\<close> is a discussion of group 1 in \<open>t2\<close>; \<open>th2\<close> is a question, \<open>th3\<close> a
  discussion without responses and \<open>th4\<close> a discussion whose one response has no
  comments, all three open to every group.
\<close>

definition alice :: user where
  "alice = \<lparr>user_id = 1, username = ''alice''\<rparr>"

definition mo :: user where
  "mo = \<lparr>user_id = 2, username = ''mo''\<rparr>"

definition request_of :: "user \<Rightarrow> request" where
  "request_of u = \<lparr>request_user = u\<rparr>"

definition demo_course :: course where
  "demo_course =
     \<lparr>course_key = ''demo'',
      discussion_topics = [(''General'', \<lparr>entry_id = ''t1'', entry_sort_key = None\<rparr>)]\<rparr>"

definition demo_xblocks :: "xblock list" where
  "demo_xblocks =
     [\<lparr>discussion_id = ''t2'', discussion_category = ''Week 1'', discussion_target = ''Unit 1'',
       xblock_sort_key = None\<rparr>]"

definition reply1 :: cc_comment where
  "reply1 = Comment ''c2'' ''th1'' ''1'' []"

definition response1 :: cc_comment where
  "response1 = Comment ''c1'' ''th1'' ''3'' [reply1]"

definition response2 :: cc_comment where
  "response2 = Comment ''c3'' ''th4'' ''3'' []"

definition answer1 :: cc_comment where
  "answer1 = Comment ''c4'' ''th2'' ''3'' []"

definition thread1 :: cc_thread where
  "thread1 =
     \<lparr>thread_id = ''th1'', course_id = ''demo'', group_id = Some 1, commentable_id = ''t2'',
      thread_type = ''discussion'', is_closed = False, is_read = False, thread_user_id = ''3'',
      children = [response1], resp_total = 1, endorsed_responses = [],
      non_endorsed_responses = [], non_endorsed_resp_total = 0\<rparr>"

definition thread2 :: cc_thread where
  "thread2 =
     \<lparr>thread_id = ''th2'', course_id = ''demo'', group_id = None, commentable_id = ''t1'',
      thread_type = ''question'', is_closed = False, is_read = False, thread_user_id = ''3'',
      children = [], resp_total = 0, endorsed_responses = [answer1],
      non_endorsed_responses = [], non_endorsed_resp_total = 0\<rparr>"

definition thread3 :: cc_thread where
  "thread3 =
     \<lparr>thread_id = ''th3'', course_id = ''demo'', group_id = None, commentable_id = ''t1'',
      thread_type = ''discussion'', is_closed = False, is_read = True, thread_user_id = ''1'',
      children = [], resp_total = 0, endorsed_responses = [],
      non_endorsed_responses = [], non_endorsed_resp_total = 0\<rparr>"

definition thread4 :: cc_thread where
  "thread4 =
     \<lparr>thread_id = ''th4'', course_id = ''demo'', group_id = None, commentable_id = ''t1'',
      thread_type = ''discussion'', is_closed = False, is_read = True, thread_user_id = ''1'',
      children = [response2], resp_total = 1, endorsed_responses = [],
      non_endorsed_responses = [], non_endorsed_resp_total = 0\<rparr>"

definition demo_thread_data :: "cc_content \<Rightarrow> pydict" where
  "demo_thread_data cc =
     [(''id'', PStr (content_id cc)), (''author'', PStr ''bob''), (''voted'', PBool False),
      (''vote_count'', PInt 3), (''read'', PBool False), (''unread_comment_count'', PInt 2)]"

definition demo_comment_data :: "cc_content \<Rightarrow> pydict" where
  "demo_comment_data cc =
     [(''id'', PStr (content_id cc)), (''author'', PStr ''bob''), (''voted'', PBool False),
      (''vote_count'', PInt 0), (''endorsed'', PBool False)]"

definition demo_cleaned :: "string list \<Rightarrow> pydict \<Rightarrow> pydict" where
  "demo_cleaned names data =
     map (\<lambda>f. (f, (case map_of data f of None \<Rightarrow> PBool False | Some v \<Rightarrow> PBool (truthy v)))) names"

definition demo_threads :: "pydict \<Rightarrow> paginated_results" where
  "demo_threads query =
     \<lparr>collection = (if map_of query ''unread'' = Some (PStr ''true'') then [] else [thread3]),
      result_page = 1, result_num_pages = 1,
      thread_count = (if map_of query ''unread'' = Some (PStr ''true'') then 0 else 1),
      corrected_text = PNone\<rparr>"

definition demo_env :: env where
  "demo_env =
     \<lparr>get_course_with_access = (\<lambda>u k. if k = ''demo'' then Some demo_course else None),
      discussion_tab_enabled = (\<lambda>c u. True),
      get_context = (\<lambda>c r t. \<lparr>ctx_course = c, ctx_request = r,
                                 is_requester_privileged = (user_id (request_user r) = 2),
                                 cc_requester = username (request_user r)\<rparr>),
      course_discussion_settings = (\<lambda>k. 0),
      is_commentable_divided = (\<lambda>k c st. c = ''t2''),
      get_group_id_for_user = (\<lambda>u st. if user_id u = 1 then Some 2 else None),
      discussion_open_for_user = (\<lambda>c u. True),
      thread_retrieve = (\<lambda>i kw. if i = PStr ''th1'' then Inr thread1
                                 else if i = PStr ''th2'' then Inr thread2
                                 else if i = PStr ''th3'' then Inr thread3
                                 else if i = PStr ''th4'' then Inr thread4
                                 else Inl CommentClientRequestError),
      comment_retrieve = (\<lambda>i. if i = PStr ''c1'' then Inr response1
                               else if i = PStr ''c3'' then Inr response2
                               else Inl CommentClientRequestError),
      thread_search = demo_threads,
      subscribed_threads = (\<lambda>u. demo_threads),
      get_course_commentable_counts = (\<lambda>k. [(''t1'', [(''discussion'', 2), (''question'', 1)])]),
      user_id_by_username = (\<lambda>n. if n = ''alice'' then Some 1 else if n = ''mo'' then Some 2
                                    else None),
      get_account_settings =
        (\<lambda>r names. map (\<lambda>n. \<lparr>account_username = n, profile_image = PStr ''img''\<rparr>) names),
      get_accessible_discussion_xblocks = (\<lambda>c u. demo_xblocks),
      build_absolute_uri = (\<lambda>r path query. path),
      thread_serializer_data = (\<lambda>ctx. demo_thread_data),
      comment_serializer_data = (\<lambda>ctx. demo_comment_data),
      topic_serializer_data = (\<lambda>t. PStr (topic_name t)),
      thread_serializer_errors = (\<lambda>ctx inst data. []),
      thread_serializer_save =
        (\<lambda>ctx inst data. case inst of None \<Rightarrow> CCThread thread3 | Some cc \<Rightarrow> cc),
      comment_serializer_errors = (\<lambda>ctx inst data. []),
      comment_serializer_save =
        (\<lambda>ctx inst data. case inst of None \<Rightarrow> CCComment response2 | Some cc \<Rightarrow> cc),
      thread_actions_fields = [''following'', ''voted'', ''abuse_flagged'', ''read'', ''pinned''],
      thread_actions_errors = (\<lambda>data. []),
      thread_actions_cleaned_data =
        demo_cleaned [''following'', ''voted'', ''abuse_flagged'', ''read'', ''pinned''],
      comment_actions_fields = [''voted'', ''abuse_flagged''],
      comment_actions_errors = (\<lambda>data. []),
      comment_actions_cleaned_data = demo_cleaned [''voted'', ''abuse_flagged''],
      get_editable_fields =
        (\<lambda>cc ctx. [''title'', ''raw_body'', ''following'', ''voted'', ''abuse_flagged'', ''read'']),
      get_initializable_comment_fields = (\<lambda>ctx. [''thread_id'', ''raw_body'', ''voted'']),
      can_delete = (\<lambda>cc ctx. is_requester_privileged ctx),
      set_iteration = sorted_list_of_set\<rparr>"

definition default_args :: thread_list_args where
  "default_args =
     \<lparr>page = 1, page_size = 10, topic_id_list = None, text_search = None, following = False,
      author = None, thread_type_arg = None, flagged = None, view = None,
      order_by = ''last_activity_at'', order_direction = ''desc'', requested_fields = None,
      count_flagged = None\<rparr>"

subsection \<open>Predicates used in the statements\<close>

text \<open>
  The requester and thread of the group rule: the thread's course resolves for the
  requester, who is not privileged there; the thread carries a group, its commentable is
  divided, and the requester is assigned to another group.
\<close>

definition outside_group :: "env \<Rightarrow> request \<Rightarrow> cc_thread \<Rightarrow> bool" where
  "outside_group env req t =
     (case p_get_course env (course_id t) (request_user req) of
        Inl e \<Rightarrow> False
      | Inr crs \<Rightarrow>
          \<not> is_requester_privileged (get_context env crs req (Some t)) \<and>
          group_truthy (group_id t) \<and>
          is_commentable_divided env (course_key crs) (commentable_id t)
            (course_discussion_settings env (course_id t)) \<and>
          (case get_group_id_for_user env (request_user req)
                  (course_discussion_settings env (course_id t)) of
             None \<Rightarrow> False
           | Some g \<Rightarrow> group_id t \<noteq> Some g))"

text \<open>The errors a failed lookup in a serialized entity can raise.\<close>

definition lookup_error :: "error \<Rightarrow> bool" where
  "lookup_error e = (case e of KeyError k \<Rightarrow> True | TypeError \<Rightarrow> True | _ \<Rightarrow> False)"

text \<open>What the event list says: the record was saved; the named signal was sent.\<close>

definition is_save :: "event \<Rightarrow> bool" where
  "is_save e = (case e of SerializerSave cc \<Rightarrow> True | _ \<Rightarrow> False)"

definition is_signal :: "string \<Rightarrow> event \<Rightarrow> bool" where
  "is_signal name e = (case e of SignalSent n u cc \<Rightarrow> n = name | _ \<Rightarrow> False)"

definition persisted :: "event list \<Rightarrow> bool" where
  "persisted evs = list_ex is_save evs"

definition signal_fired :: "string \<Rightarrow> event list \<Rightarrow> bool" where
  "signal_fired name evs = list_ex (is_signal name) evs"

text \<open>Nothing was saved and no edit signal was sent.\<close>

definition quiet :: "event list \<Rightarrow> bool" where
  "quiet evs = (\<not> persisted evs \<and> \<not> signal_fired ''thread_edited'' evs \<and>
                \<not> signal_fired ''comment_edited'' evs)"

text \<open>
  The topic ids of a course as the requester sees it: the courseware-linked ones (the
  accessible discussion xblocks) and the freestanding ones.
\<close>

definition courseware_ids :: "env \<Rightarrow> course \<Rightarrow> request \<Rightarrow> string set" where
  "courseware_ids env crs req =
     set (map discussion_id (get_accessible_discussion_xblocks env crs (request_user req)))"

definition freestanding_ids :: "course \<Rightarrow> string set" where
  "freestanding_ids crs = set (map (\<lambda>item. entry_id (snd item)) (discussion_topics crs))"

text \<open>
  What Python guarantees of the iteration over a set: every element comes once.
\<close>

definition iterates_sets :: "env \<Rightarrow> bool" where
  "iterates_sets env =
     (\<forall>s. finite s \<longrightarrow> set (set_iteration env s) = s \<and> distinct (set_iteration env s))"

text \<open>
  \<open>r\<close> is the response of the thread with the given id: the first one with that id
  among the thread's responses (for a question the endorsed ones, then the others).
\<close>

definition is_response :: "cc_thread \<Rightarrow> string \<Rightarrow> cc_comment \<Rightarrow> bool" where
  "is_response t cid r =
     (\<exists>before after.
        (if thread_type t = ''question'' then endorsed_responses t @ non_endorsed_responses t
         else children t) = before @ r # after \<and>
        comment_id r = cid \<and> cid \<notin> comment_id ` set before)"

text \<open>
  The last page of a listing of \<open>n\<close> items: the ceiling of \<open>n\<close> over the page size, and
  page 1 when there is nothing to list.
\<close>

definition last_page :: "nat \<Rightarrow> int \<Rightarrow> int" where
  "last_page n psize = max 1 \<lceil>real n / real_of_int psize\<rceil>"

text \<open>
  The events of one vote (\<open>up = True\<close>) or of taking it back: the voted signal, the
  call to the comment service, and the vote-tracking event.
\<close>

definition vote_events :: "bool \<Rightarrow> cc_content \<Rightarrow> request \<Rightarrow> request_context \<Rightarrow> event list" where
  "vote_events up cc req ctx =
     [SignalSent (if content_type cc = ''thread'' then ''thread_voted'' else ''comment_voted'')
        (request_user (ctx_request ctx)) cc,
      (if up then Vote (cc_requester ctx) cc ''up'' else Unvote (cc_requester ctx) cc),
      TrackVotedEvent req (ctx_course ctx) cc ''up'' (\<not> up)]"

section \<open>Properties\<close>

subsection \<open>Serialization raises lookup errors only\<close>

lemma getitem_error: "getitem d k = Inl e \<Longrightarrow> lookup_error e"
  by (auto simp: getitem_def lookup_error_def split: option.splits)

lemma add_user_error: "add_user users v profiles = Inl e \<Longrightarrow> lookup_error e"
  by (cases v) (auto simp: lookup_error_def split: option.splits)

lemma p_get_users_error: "p_get_users ety entity profiles = Inl e \<Longrightarrow> lookup_error e"
  by (auto simp: p_get_users_def split: sum.splits if_splits dest: getitem_error add_user_error)

lemma add_users_error: "add_users ety profiles es = Inl e \<Longrightarrow> lookup_error e"
  by (induction es arbitrary: e) (auto split: sum.splits dest: p_get_users_error)

lemma str_items_error: "str_items vs = Inl e \<Longrightarrow> lookup_error e"
  by (induction vs arbitrary: e rule: str_items.induct) (auto simp: lookup_error_def split: sum.splits)

lemma collect_usernames_error: "collect_usernames sers us = Inl e \<Longrightarrow> lookup_error e"
  by (induction sers arbitrary: us) (auto simp: Let_def split: sum.splits dest: getitem_error)

lemma serialize_error:
  "p_serialize_discussion_entities env req ctx es rf ety = Inl e \<Longrightarrow> lookup_error e"
  by (auto simp: p_serialize_discussion_entities_def p_add_additional_response_fields_def Let_def
        split: sum.splits if_splits
        dest: collect_usernames_error str_items_error add_users_error)

lemma serialize_nothing:
  "p_serialize_discussion_entities env req ctx [] rf ety = Inr []"
  by (simp add: p_serialize_discussion_entities_def p_add_additional_response_fields_def Let_def)

subsection \<open>Group-restricted threads\<close>

lemma outside_group_not_found:
  assumes "thread_retrieve env tid
             (set_default (set_default kw ''with_responses'' (PBool False))
                ''mark_as_read'' (PBool False)) = Inr t"
    and "outside_group env req t"
  shows "p_get_thread_and_context env req tid kw = Inl ThreadNotFoundError"
  using assms
  by (auto simp: p_get_thread_and_context_def outside_group_def on_request_error_def Let_def
        split: sum.splits option.splits)

lemma hidden_thread:
  assumes "\<And>kw. \<exists>t. thread_retrieve env tid kw = Inr t \<and> outside_group env req t"
  shows "p_get_thread_and_context env req tid kw = Inl ThreadNotFoundError"
proof -
  obtain t where "thread_retrieve env tid
             (set_default (set_default kw ''with_responses'' (PBool False))
                ''mark_as_read'' (PBool False)) = Inr t" and "outside_group env req t"
    using assms by blast
  then show ?thesis by (rule outside_group_not_found)
qed

lemma privileged_sees_thread:
  assumes "thread_retrieve env tid
             (set_default (set_default kw ''with_responses'' (PBool False))
                ''mark_as_read'' (PBool False)) = Inr t"
    and "p_get_course env (course_id t) (request_user req) = Inr crs"
    and "is_requester_privileged (get_context env crs req (Some t))"
  shows "p_get_thread_and_context env req tid kw = Inr (t, get_context env crs req (Some t))"
  using assms
  by (simp add: p_get_thread_and_context_def on_request_error_def Let_def)

text \<open>
  C1. Let the comment service hold a group-restricted thread in a divided commentable,
  and let the requester be non-privileged and assigned to another group than the thread's
  (\<open>outside_group\<close>). Then every operation that retrieves the thread fails with
  ThreadNotFound: thread detail, comment listing, comment creation, thread update and
  thread delete, and none of them changes anything. A privileged requester is exempt:
  for them the retrieval returns the thread whatever its group.
\<close>

theorem group_restricted_thread_hidden:
  "((\<forall>kw. \<exists>t. thread_retrieve env (PStr tid) kw = Inr t \<and> outside_group env req t) \<longrightarrow>
      get_thread env req tid rf = Inl ThreadNotFoundError \<and>
      get_comment_list env req tid endorsed pg psize rf = Inl ThreadNotFoundError \<and>
      (map_of comment_data ''thread_id'' = Some (PStr tid) \<and> tid \<noteq> [] \<longrightarrow>
         create_comment env req comment_data = (Inl ThreadNotFoundError, [])) \<and>
      update_thread env req tid update_data = (Inl ThreadNotFoundError, []) \<and>
      delete_thread env req tid = (Inl ThreadNotFoundError, [])) \<and>
   (thread_retrieve env tid'
       (set_default (set_default kw' ''with_responses'' (PBool False))
          ''mark_as_read'' (PBool False)) = Inr t' \<and>
    p_get_course env (course_id t') (request_user req') = Inr crs \<and>
    is_requester_privileged (get_context env crs req' (Some t')) \<longrightarrow>
      p_get_thread_and_context env req' tid' kw' = Inr (t', get_context env crs req' (Some t')))"
proof (intro conjI impI)
  assume h: "\<forall>kw. \<exists>t. thread_retrieve env (PStr tid) kw = Inr t \<and> outside_group env req t"
  then have nf: "\<And>kw. p_get_thread_and_context env req (PStr tid) kw = Inl ThreadNotFoundError"
    by (intro hidden_thread) blast
  show "get_thread env req tid rf = Inl ThreadNotFoundError"
    by (simp add: get_thread_def nf)
  show "get_comment_list env req tid endorsed pg psize rf = Inl ThreadNotFoundError"
    by (simp add: get_comment_list_def nf Let_def)
  show "update_thread env req tid update_data = (Inl ThreadNotFoundError, [])"
    by (simp add: update_thread_def nf)
  show "delete_thread env req tid = (Inl ThreadNotFoundError, [])"
    by (simp add: delete_thread_def nf)
  assume "map_of comment_data ''thread_id'' = Some (PStr tid) \<and> tid \<noteq> []"
  then show "create_comment env req comment_data = (Inl ThreadNotFoundError, [])"
    by (simp add: create_comment_def nf)
next
  assume "thread_retrieve env tid'
       (set_default (set_default kw' ''with_responses'' (PBool False))
          ''mark_as_read'' (PBool False)) = Inr t' \<and>
    p_get_course env (course_id t') (request_user req') = Inr crs \<and>
    is_requester_privileged (get_context env crs req' (Some t'))"
  then show "p_get_thread_and_context env req' tid' kw' = Inr (t', get_context env crs req' (Some t'))"
    by (intro privileged_sees_thread) simp_all
qed

theorem group_restricted_thread_hidden_witness:
  "get_thread demo_env (request_of alice) ''th1'' None = Inl ThreadNotFoundError \<and>
   get_comment_list demo_env (request_of alice) ''th1'' None 1 10 None = Inl ThreadNotFoundError \<and>
   create_comment demo_env (request_of alice) [(''thread_id'', PStr ''th1''), (''raw_body'', PStr ''hi'')]
     = (Inl ThreadNotFoundError, []) \<and>
   update_thread demo_env (request_of alice) ''th1'' [(''title'', PStr ''new'')]
     = (Inl ThreadNotFoundError, []) \<and>
   delete_thread demo_env (request_of alice) ''th1'' = (Inl ThreadNotFoundError, []) \<and>
   p_get_thread_and_context demo_env (request_of mo) (PStr ''th1'') []
     = Inr (thread1, get_context demo_env demo_course (request_of mo) (Some thread1))"
proof -
  have og: "outside_group demo_env (request_of alice) thread1"
    by code_simp
  have h: "\<forall>kw. \<exists>t. thread_retrieve demo_env (PStr ''th1'') kw = Inr t \<and>
                  outside_group demo_env (request_of alice) t"
    using og by (simp add: demo_env_def)
  have p: "thread_retrieve demo_env (PStr ''th1'')
       (set_default (set_default [] ''with_responses'' (PBool False))
          ''mark_as_read'' (PBool False)) = Inr thread1 \<and>
    p_get_course demo_env (course_id thread1) (request_user (request_of mo)) = Inr demo_course \<and>
    is_requester_privileged (get_context demo_env demo_course (request_of mo) (Some thread1))"
    by code_simp
  have m: "map_of [(''thread_id'', PStr ''th1''), (''raw_body'', PStr ''hi'')] ''thread_id''
             = Some (PStr ''th1'') \<and> ''th1'' \<noteq> []"
    by simp
  show ?thesis
    using group_restricted_thread_hidden
      [of demo_env "''th1''" "request_of alice" None None 1 10
          "[(''thread_id'', PStr ''th1''), (''raw_body'', PStr ''hi'')]"
          "[(''title'', PStr ''new'')]" "PStr ''th1''" "[]" thread1 "request_of mo" demo_course] h p m
    by blast
qed

subsection \<open>Listing comments: the endorsed filter\<close>

lemma lookup_error_simps [simp]:
  "\<not> lookup_error (ValidationError errs)" "\<not> lookup_error PageNotFoundError"
  "\<not> lookup_error ZeroDivisionError"
  by (simp_all add: lookup_error_def)

lemma page_count_error: "page_count n psize = Inl e \<Longrightarrow> e = ZeroDivisionError"
  by (auto simp: page_count_def split: if_splits)

lemma select_responses_ok:
  "\<not> (thread_type t = ''question'' \<and> endorsed = None) \<Longrightarrow>
   \<not> (thread_type t \<noteq> ''question'' \<and> endorsed \<noteq> None) \<Longrightarrow>
   \<exists>rs n. select_responses t endorsed skip psize = Inr (rs, n)"
  by (auto simp: select_responses_def split: option.splits bool.splits)

text \<open>
  C2. In \<open>get_comment_list\<close>, once the thread has been retrieved: a question thread
  with \<open>endorsed\<close> left out (None) fails with the ValidationError that the field is
  required; a thread of any other type (a discussion) with \<open>endorsed\<close> given fails with
  the ValidationError that the field may not be specified; in every other case the call
  raises no ValidationError at all.
\<close>

theorem comment_list_endorsed_validation:
  assumes "p_get_thread_and_context env req (PStr tid)
             (comment_list_kwargs req (psize * (pg - 1)) psize) = Inr (t, ctx)"
  shows "(thread_type t = ''question'' \<and> endorsed = None \<longrightarrow>
            get_comment_list env req tid endorsed pg psize rf =
              Inl (ValidationError
                     [(''endorsed'', [''This field is required for question threads.''])])) \<and>
         (thread_type t \<noteq> ''question'' \<and> endorsed \<noteq> None \<longrightarrow>
            get_comment_list env req tid endorsed pg psize rf =
              Inl (ValidationError
                     [(''endorsed'',
                       [''This field may not be specified for discussion threads.''])])) \<and>
         (\<not> (thread_type t = ''question'' \<and> endorsed = None) \<and>
          \<not> (thread_type t \<noteq> ''question'' \<and> endorsed \<noteq> None) \<longrightarrow>
            (\<forall>errs. get_comment_list env req tid endorsed pg psize rf \<noteq>
                      Inl (ValidationError errs)))"
proof (intro conjI impI allI)
  assume "thread_type t = ''question'' \<and> endorsed = None"
  then show "get_comment_list env req tid endorsed pg psize rf =
              Inl (ValidationError
                     [(''endorsed'', [''This field is required for question threads.''])])"
    using assms by (simp add: get_comment_list_def select_responses_def Let_def)
next
  assume "thread_type t \<noteq> ''question'' \<and> endorsed \<noteq> None"
  then show "get_comment_list env req tid endorsed pg psize rf =
              Inl (ValidationError
                     [(''endorsed'',
                       [''This field may not be specified for discussion threads.''])])"
    using assms by (auto simp: get_comment_list_def select_responses_def Let_def)
next
  fix errs
  assume ok: "\<not> (thread_type t = ''question'' \<and> endorsed = None) \<and>
          \<not> (thread_type t \<noteq> ''question'' \<and> endorsed \<noteq> None)"
  then obtain rs n where sel: "select_responses t endorsed (psize * (pg - 1)) psize = Inr (rs, n)"
    using select_responses_ok by blast
  show "get_comment_list env req tid endorsed pg psize rf \<noteq> Inl (ValidationError errs)"
  proof
    assume "get_comment_list env req tid endorsed pg psize rf = Inl (ValidationError errs)"
    then show False
      using assms sel
      by (auto simp: get_comment_list_def Let_def split: if_splits sum.splits
            dest: page_count_error serialize_error)
  qed
qed

theorem comment_list_endorsed_validation_witness:
  "get_comment_list demo_env (request_of mo) ''th2'' None 1 10 None =
     Inl (ValidationError [(''endorsed'', [''This field is required for question threads.''])]) \<and>
   get_comment_list demo_env (request_of mo) ''th3'' (Some True) 1 10 None =
     Inl (ValidationError
            [(''endorsed'', [''This field may not be specified for discussion threads.''])]) \<and>
   (\<forall>errs. get_comment_list demo_env (request_of mo) ''th2'' (Some True) 1 10 None \<noteq>
             Inl (ValidationError errs))"
proof -
  have r2: "p_get_thread_and_context demo_env (request_of mo) (PStr ''th2'')
              (comment_list_kwargs (request_of mo) (10 * (1 - 1)) 10) =
            Inr (thread2, get_context demo_env demo_course (request_of mo) (Some thread2))"
    by code_simp
  have r3: "p_get_thread_and_context demo_env (request_of mo) (PStr ''th3'')
              (comment_list_kwargs (request_of mo) (10 * (1 - 1)) 10) =
            Inr (thread3, get_context demo_env demo_course (request_of mo) (Some thread3))"
    by code_simp
  have q: "thread_type thread2 = ''question''" and d: "thread_type thread3 \<noteq> ''question''"
    by (simp_all add: thread2_def thread3_def)
  show ?thesis
    using comment_list_endorsed_validation [OF r2, of None None]
      comment_list_endorsed_validation [OF r3, of "Some True" None]
      comment_list_endorsed_validation [OF r2, of "Some True" None] q d
    by simp
qed

subsection \<open>Pages out of range\<close>

lemma thread_list_reaches_query:
  assumes "exclusive_param_count a \<le> 1" and "map_of cc_map (order_by a) = Some sk"
    and "order_direction a = ''desc''" and "p_get_course env ckey (request_user req) = Inr crs"
    and "resolve_author env (author a) = Some aid"
  shows "get_thread_list env req ckey a =
           thread_list_query env req crs (get_context env crs req None) a sk aid"
  using assms by (simp add: get_thread_list_def Let_def)

lemma beyond_last_page:
  assumes "0 < psize" and "last_page n psize < pg"
  shows "int n \<le> psize * (pg - 1)" and "pg \<noteq> 1"
proof -
  from assms(2) have c: "\<lceil>real n / real_of_int psize\<rceil> \<le> pg - 1" and one: "1 < pg"
    by (simp_all add: last_page_def)
  from one show "pg \<noteq> 1" by simp
  from c have "real n / real_of_int psize \<le> real_of_int (pg - 1)"
    by (simp only: ceiling_le_iff)
  then have "real n \<le> real_of_int (pg - 1) * real_of_int psize"
    using assms(1) by (simp add: pos_divide_le_eq)
  then have "real_of_int (int n) \<le> real_of_int (psize * (pg - 1))"
    by (simp add: mult.commute)
  then show "int n \<le> psize * (pg - 1)"
    by (simp only: of_int_le_iff)
qed

lemma find_first:
  "cid \<notin> comment_id ` set before \<Longrightarrow> comment_id r = cid \<Longrightarrow>
   find (\<lambda>x. comment_id x = cid) (before @ r # after) = Some r"
  by (induction before) auto

text \<open>
  C3. A listing whose page lies beyond the available range fails with PageNotFound.
  \<^item> \<open>get_thread_list\<close>: the comment service cuts the page; the call fails when the
    page it returns is not the requested one.
  \<^item> \<open>get_comment_list\<close>: for a discussion thread and for the non-endorsed responses
    of a question the comment service cuts the page, and the call fails when that page
    is empty and not page 1; the endorsed responses are cut by the module, and every
    page after the last one (\<open>last_page\<close> of their number) fails.
  \<^item> \<open>get_response_comments\<close>: the module cuts the comments of the response, and
    every page after the last one fails.
  Page 1 of an empty collection is returned as an empty page by all three. Each part is
  for a request that passes the checks made before the page is looked at.
\<close>

theorem page_beyond_range:
  "(exclusive_param_count a \<le> 1 \<and> map_of cc_map (order_by a) = Some sk \<and>
    order_direction a = ''desc'' \<and> p_get_course env ckey (request_user req) = Inr crs \<and>
    resolve_author env (author a) = Some aid \<and>
    \<not> (count_flagged a = Some True \<and> \<not> is_requester_privileged (get_context env crs req None)) \<and>
    fetch_threads env req crs (get_context env crs req None) a sk aid = found \<longrightarrow>
      (result_page found \<noteq> page a \<longrightarrow>
         get_thread_list env req ckey a = Inl PageNotFoundError) \<and>
      (page a = 1 \<and> result_page found = 1 \<and> collection found = [] \<longrightarrow>
         get_thread_list env req ckey a =
           Inr \<lparr>page_num = 1, num_pages = result_num_pages found,
                result_count = thread_count found,
                payload = \<lparr>results = [], text_search_rewrite = corrected_text found\<rparr>\<rparr>)) \<and>
   (p_get_thread_and_context env req (PStr tid)
      (comment_list_kwargs req (psize * (pg - 1)) psize) = Inr (t, ctx) \<longrightarrow>
      (thread_type t \<noteq> ''question'' \<and> endorsed = None \<and> children t = [] \<and> pg \<noteq> 1 \<longrightarrow>
         get_comment_list env req tid endorsed pg psize rf = Inl PageNotFoundError) \<and>
      (thread_type t = ''question'' \<and> endorsed = Some False \<and>
       non_endorsed_responses t = [] \<and> pg \<noteq> 1 \<longrightarrow>
         get_comment_list env req tid endorsed pg psize rf = Inl PageNotFoundError) \<and>
      (thread_type t = ''question'' \<and> endorsed = Some True \<and> 0 < psize \<and>
       last_page (length (endorsed_responses t)) psize < pg \<longrightarrow>
         get_comment_list env req tid endorsed pg psize rf = Inl PageNotFoundError) \<and>
      (pg = 1 \<and>
       (thread_type t \<noteq> ''question'' \<and> endorsed = None \<and> children t = [] \<and> resp_total t = 0 \<or>
        thread_type t = ''question'' \<and> endorsed = Some False \<and>
          non_endorsed_responses t = [] \<and> non_endorsed_resp_total t = 0 \<or>
        thread_type t = ''question'' \<and> endorsed = Some True \<and> endorsed_responses t = []) \<longrightarrow>
         get_comment_list env req tid endorsed pg psize rf =
           Inr \<lparr>page_num = 1, num_pages = 1, result_count = 0, payload = []\<rparr>)) \<and>
   (comment_retrieve env (PStr cid) = Inr c \<and>
    p_get_thread_and_context env req (PStr (comment_thread_id c))
      [(''with_responses'', PBool True), (''recursive'', PBool True)] = Inr (t', ctx') \<and>
    is_response t' cid r \<longrightarrow>
      (0 < psize \<and> last_page (length (comment_children r)) psize < pg \<longrightarrow>
         get_response_comments env req cid pg psize rf = Inl PageNotFoundError) \<and>
      (comment_children r = [] \<and> pg = 1 \<longrightarrow>
         get_response_comments env req cid pg psize rf =
           Inr \<lparr>page_num = 1, num_pages = 1, result_count = 0, payload = []\<rparr>))"
proof (intro conjI impI)
  assume h: "exclusive_param_count a \<le> 1 \<and> map_of cc_map (order_by a) = Some sk \<and>
    order_direction a = ''desc'' \<and> p_get_course env ckey (request_user req) = Inr crs \<and>
    resolve_author env (author a) = Some aid \<and>
    \<not> (count_flagged a = Some True \<and> \<not> is_requester_privileged (get_context env crs req None)) \<and>
    fetch_threads env req crs (get_context env crs req None) a sk aid = found"
  then have q: "get_thread_list env req ckey a =
           thread_list_query env req crs (get_context env crs req None) a sk aid"
    by (intro thread_list_reaches_query) simp_all
  {
    assume "result_page found \<noteq> page a"
    then show "get_thread_list env req ckey a = Inl PageNotFoundError"
      using h by (auto simp: q thread_list_query_def Let_def)
  }
  {
    assume "page a = 1 \<and> result_page found = 1 \<and> collection found = []"
    then show "get_thread_list env req ckey a =
           Inr \<lparr>page_num = 1, num_pages = result_num_pages found,
                result_count = thread_count found,
                payload = \<lparr>results = [], text_search_rewrite = corrected_text found\<rparr>\<rparr>"
      using h by (auto simp: q thread_list_query_def Let_def serialize_nothing)
  }
next
  assume h: "p_get_thread_and_context env req (PStr tid)
      (comment_list_kwargs req (psize * (pg - 1)) psize) = Inr (t, ctx)"
  {
    assume "thread_type t \<noteq> ''question'' \<and> endorsed = None \<and> children t = [] \<and> pg \<noteq> 1"
    then show "get_comment_list env req tid endorsed pg psize rf = Inl PageNotFoundError"
      using h by (simp add: get_comment_list_def select_responses_def Let_def)
  }
  {
    assume "thread_type t = ''question'' \<and> endorsed = Some False \<and>
       non_endorsed_responses t = [] \<and> pg \<noteq> 1"
    then show "get_comment_list env req tid endorsed pg psize rf = Inl PageNotFoundError"
      using h by (simp add: get_comment_list_def select_responses_def Let_def)
  }
  {
    assume b: "thread_type t = ''question'' \<and> endorsed = Some True \<and> 0 < psize \<and>
       last_page (length (endorsed_responses t)) psize < pg"
    then have "int (length (endorsed_responses t)) \<le> psize * (pg - 1)" and "pg \<noteq> 1"
      using beyond_last_page [of psize "length (endorsed_responses t)" pg] by simp_all
    then have "py_slice (endorsed_responses t) (psize * (pg - 1)) (psize * (pg - 1) + psize) = []"
      and "pg \<noteq> 1"
      by (auto simp: py_slice_def slice_bound_def Let_def min_def)
    then show "get_comment_list env req tid endorsed pg psize rf = Inl PageNotFoundError"
      using h b by (simp add: get_comment_list_def select_responses_def Let_def)
  }
  {
    assume "pg = 1 \<and>
       (thread_type t \<noteq> ''question'' \<and> endorsed = None \<and> children t = [] \<and> resp_total t = 0 \<or>
        thread_type t = ''question'' \<and> endorsed = Some False \<and>
          non_endorsed_responses t = [] \<and> non_endorsed_resp_total t = 0 \<or>
        thread_type t = ''question'' \<and> endorsed = Some True \<and> endorsed_responses t = [])"
    then show "get_comment_list env req tid endorsed pg psize rf =
           Inr \<lparr>page_num = 1, num_pages = 1, result_count = 0, payload = []\<rparr>"
      using h
      by (auto simp: get_comment_list_def select_responses_def Let_def page_count_def
            serialize_nothing py_slice_def)
  }
next
  assume h: "comment_retrieve env (PStr cid) = Inr c \<and>
    p_get_thread_and_context env req (PStr (comment_thread_id c))
      [(''with_responses'', PBool True), (''recursive'', PBool True)] = Inr (t', ctx') \<and>
    is_response t' cid r"
  then have rc: "response_comments_of t' cid = comment_children r"
    by (auto simp: is_response_def response_comments_of_def Let_def find_first)
  {
    assume b: "0 < psize \<and> last_page (length (comment_children r)) psize < pg"
    then have "int (length (comment_children r)) \<le> psize * (pg - 1)" and "pg \<noteq> 1"
      using beyond_last_page [of psize "length (comment_children r)" pg] by simp_all
    then have "py_slice (comment_children r) (psize * (pg - 1)) (psize * (pg - 1) + psize) = []"
      and "pg \<noteq> 1"
      by (auto simp: py_slice_def slice_bound_def Let_def min_def)
    then show "get_response_comments env req cid pg psize rf = Inl PageNotFoundError"
      using h by (simp add: get_response_comments_def Let_def on_request_error_def rc)
  }
  {
    assume "comment_children r = [] \<and> pg = 1"
    then show "get_response_comments env req cid pg psize rf =
           Inr \<lparr>page_num = 1, num_pages = 1, result_count = 0, payload = []\<rparr>"
      using h
      by (simp add: get_response_comments_def Let_def on_request_error_def page_count_def
            serialize_nothing py_slice_def rc)
  }
qed

theorem page_beyond_range_witness:
  "get_thread_list demo_env (request_of alice) ''demo'' (default_args\<lparr>page := 5\<rparr>) =
     Inl PageNotFoundError \<and>
   get_thread_list demo_env (request_of alice) ''demo'' (default_args\<lparr>view := Some ''unread''\<rparr>) =
     Inr \<lparr>page_num = 1, num_pages = 1, result_count = 0,
          payload = \<lparr>results = [], text_search_rewrite = PNone\<rparr>\<rparr> \<and>
   get_comment_list demo_env (request_of mo) ''th3'' None 2 10 None = Inl PageNotFoundError \<and>
   get_comment_list demo_env (request_of mo) ''th2'' (Some False) 2 10 None =
     Inl PageNotFoundError \<and>
   endorsed_responses thread2 = [answer1] \<and>
   get_comment_list demo_env (request_of mo) ''th2'' (Some True) 2 10 None =
     Inl PageNotFoundError \<and>
   get_comment_list demo_env (request_of mo) ''th3'' None 1 10 None =
     Inr \<lparr>page_num = 1, num_pages = 1, result_count = 0, payload = []\<rparr> \<and>
   get_comment_list demo_env (request_of mo) ''th2'' (Some False) 1 10 None =
     Inr \<lparr>page_num = 1, num_pages = 1, result_count = 0, payload = []\<rparr> \<and>
   comment_children response1 = [reply1] \<and>
   get_response_comments demo_env (request_of mo) ''c1'' 1 10 None =
     Inr \<lparr>page_num = 1, num_pages = 1, result_count = 1,
          payload = [demo_comment_data (CCComment reply1)]\<rparr> \<and>
   get_response_comments demo_env (request_of mo) ''c1'' 2 10 None = Inl PageNotFoundError \<and>
   get_response_comments demo_env (request_of mo) ''c3'' 1 10 None =
     Inr \<lparr>page_num = 1, num_pages = 1, result_count = 0, payload = []\<rparr>"
proof -
  let ?ctx = "get_context demo_env demo_course (request_of alice) None"
  let ?empty = "\<lparr>collection = [], result_page = 1, result_num_pages = 1, thread_count = 0,
                  corrected_text = PNone\<rparr>"
  let ?one = "\<lparr>collection = [thread3], result_page = 1, result_num_pages = 1, thread_count = 1,
                corrected_text = PNone\<rparr>"
  have a5: "exclusive_param_count (default_args\<lparr>page := 5\<rparr>) \<le> 1 \<and>
      map_of cc_map (order_by (default_args\<lparr>page := 5\<rparr>)) = Some ''activity'' \<and>
      order_direction (default_args\<lparr>page := 5\<rparr>) = ''desc'' \<and>
      p_get_course demo_env ''demo'' (request_user (request_of alice)) = Inr demo_course \<and>
      resolve_author demo_env (author (default_args\<lparr>page := 5\<rparr>)) = Some None \<and>
      \<not> (count_flagged (default_args\<lparr>page := 5\<rparr>) = Some True \<and> \<not> is_requester_privileged ?ctx) \<and>
      fetch_threads demo_env (request_of alice) demo_course ?ctx (default_args\<lparr>page := 5\<rparr>)
        ''activity'' None = ?one"
    by code_simp
  have a5': "result_page ?one \<noteq> page (default_args\<lparr>page := 5\<rparr>)"
    by (simp add: default_args_def)
  have a1: "exclusive_param_count (default_args\<lparr>view := Some ''unread''\<rparr>) \<le> 1 \<and>
      map_of cc_map (order_by (default_args\<lparr>view := Some ''unread''\<rparr>)) = Some ''activity'' \<and>
      order_direction (default_args\<lparr>view := Some ''unread''\<rparr>) = ''desc'' \<and>
      p_get_course demo_env ''demo'' (request_user (request_of alice)) = Inr demo_course \<and>
      resolve_author demo_env (author (default_args\<lparr>view := Some ''unread''\<rparr>)) = Some None \<and>
      \<not> (count_flagged (default_args\<lparr>view := Some ''unread''\<rparr>) = Some True \<and>
         \<not> is_requester_privileged ?ctx) \<and>
      fetch_threads demo_env (request_of alice) demo_course ?ctx
        (default_args\<lparr>view := Some ''unread''\<rparr>) ''activity'' None = ?empty"
    by code_simp
  have a1': "page (default_args\<lparr>view := Some ''unread''\<rparr>) = 1 \<and> result_page ?empty = 1 \<and>
      collection ?empty = []"
    by (simp add: default_args_def)
  have first: "get_thread_list demo_env (request_of alice) ''demo'' (default_args\<lparr>page := 5\<rparr>) =
       Inl PageNotFoundError"
    using page_beyond_range
      [where a = "default_args\<lparr>page := 5\<rparr>" and sk = "''activity''" and env = demo_env
         and ckey = "''demo''" and req = "request_of alice" and crs = demo_course and aid = None
         and found = ?one] a5 a5'
    by simp
  have second: "get_thread_list demo_env (request_of alice) ''demo''
         (default_args\<lparr>view := Some ''unread''\<rparr>) =
       Inr \<lparr>page_num = 1, num_pages = 1, result_count = 0,
            payload = \<lparr>results = [], text_search_rewrite = PNone\<rparr>\<rparr>"
    using page_beyond_range
      [where a = "default_args\<lparr>view := Some ''unread''\<rparr>" and sk = "''activity''"
         and env = demo_env and ckey = "''demo''" and req = "request_of alice"
         and crs = demo_course and aid = None and found = ?empty] a1 a1'
    by simp
  have t3p2: "p_get_thread_and_context demo_env (request_of mo) (PStr ''th3'')
        (comment_list_kwargs (request_of mo) (10 * (2 - 1)) 10) =
        Inr (thread3, get_context demo_env demo_course (request_of mo) (Some thread3))"
    and t3p1: "p_get_thread_and_context demo_env (request_of mo) (PStr ''th3'')
        (comment_list_kwargs (request_of mo) (10 * (1 - 1)) 10) =
        Inr (thread3, get_context demo_env demo_course (request_of mo) (Some thread3))"
    and t2p2: "p_get_thread_and_context demo_env (request_of mo) (PStr ''th2'')
        (comment_list_kwargs (request_of mo) (10 * (2 - 1)) 10) =
        Inr (thread2, get_context demo_env demo_course (request_of mo) (Some thread2))"
    and t2p1: "p_get_thread_and_context demo_env (request_of mo) (PStr ''th2'')
        (comment_list_kwargs (request_of mo) (10 * (1 - 1)) 10) =
        Inr (thread2, get_context demo_env demo_course (request_of mo) (Some thread2))"
    by code_simp+
  have t3: "thread_type thread3 \<noteq> ''question'' \<and> children thread3 = [] \<and> resp_total thread3 = 0"
    by (simp add: thread3_def)
  have t2: "thread_type thread2 = ''question'' \<and> non_endorsed_responses thread2 = [] \<and>
      non_endorsed_resp_total thread2 = 0 \<and> endorsed_responses thread2 = [answer1]"
    by (simp add: thread2_def)
  have last: "last_page (length [answer1]) 10 < 2" "last_page (length [reply1]) 10 < 2"
    by (simp_all add: last_page_def)
  have c1: "comment_retrieve demo_env (PStr ''c1'') = Inr response1 \<and>
      p_get_thread_and_context demo_env (request_of mo) (PStr (comment_thread_id response1))
        [(''with_responses'', PBool True), (''recursive'', PBool True)] =
        Inr (thread1, get_context demo_env demo_course (request_of mo) (Some thread1))"
    and c3: "comment_retrieve demo_env (PStr ''c3'') = Inr response2 \<and>
      p_get_thread_and_context demo_env (request_of mo) (PStr (comment_thread_id response2))
        [(''with_responses'', PBool True), (''recursive'', PBool True)] =
        Inr (thread4, get_context demo_env demo_course (request_of mo) (Some thread4))"
    by code_simp+
  have "(if thread_type thread1 = ''question''
         then endorsed_responses thread1 @ non_endorsed_responses thread1
         else children thread1) = [] @ response1 # [] \<and>
        comment_id response1 = ''c1'' \<and> ''c1'' \<notin> comment_id ` set []"
    by (simp add: thread1_def response1_def)
  then have r1: "is_response thread1 ''c1'' response1"
    unfolding is_response_def by blast
  have "(if thread_type thread4 = ''question''
         then endorsed_responses thread4 @ non_endorsed_responses thread4
         else children thread4) = [] @ response2 # [] \<and>
        comment_id response2 = ''c3'' \<and> ''c3'' \<notin> comment_id ` set []"
    by (simp add: thread4_def response2_def)
  then have r2: "is_response thread4 ''c3'' response2"
    unfolding is_response_def by blast
  have kids: "comment_children response1 = [reply1]" "comment_children response2 = []"
    by (simp_all add: response1_def response2_def)
  have third: "get_comment_list demo_env (request_of mo) ''th3'' None 2 10 None =
      Inl PageNotFoundError \<and>
    get_response_comments demo_env (request_of mo) ''c1'' 2 10 None = Inl PageNotFoundError"
    using page_beyond_range
      [where env = demo_env and req = "request_of mo" and tid = "''th3''" and psize = 10
         and pg = 2 and t = thread3 and endorsed = None and rf = None and cid = "''c1''"
         and c = response1 and t' = thread1 and r = response1]
      t3p2 t3 c1 r1 kids last
    by simp
  have fourth: "get_comment_list demo_env (request_of mo) ''th2'' (Some False) 2 10 None =
      Inl PageNotFoundError"
    using page_beyond_range
      [where env = demo_env and req = "request_of mo" and tid = "''th2''" and psize = 10
         and pg = 2 and t = thread2 and endorsed = "Some False" and rf = None]
      t2p2 t2
    by simp
  have fifth: "get_comment_list demo_env (request_of mo) ''th2'' (Some True) 2 10 None =
      Inl PageNotFoundError"
    using page_beyond_range
      [where env = demo_env and req = "request_of mo" and tid = "''th2''" and psize = 10
         and pg = 2 and t = thread2 and endorsed = "Some True" and rf = None]
      t2p2 t2 last
    by simp
  have sixth: "get_comment_list demo_env (request_of mo) ''th3'' None 1 10 None =
      Inr \<lparr>page_num = 1, num_pages = 1, result_count = 0, payload = []\<rparr> \<and>
    get_response_comments demo_env (request_of mo) ''c3'' 1 10 None =
      Inr \<lparr>page_num = 1, num_pages = 1, result_count = 0, payload = []\<rparr>"
    using page_beyond_range
      [where env = demo_env and req = "request_of mo" and tid = "''th3''" and psize = 10
         and pg = 1 and t = thread3 and endorsed = None and rf = None and cid = "''c3''"
         and c = response2 and t' = thread4 and r = response2]
      t3p1 t3 c3 r2 kids
    by simp
  have seventh: "get_comment_list demo_env (request_of mo) ''th2'' (Some False) 1 10 None =
      Inr \<lparr>page_num = 1, num_pages = 1, result_count = 0, payload = []\<rparr>"
    using page_beyond_range
      [where env = demo_env and req = "request_of mo" and tid = "''th2''" and psize = 10
         and pg = 1 and t = thread2 and endorsed = "Some False" and rf = None]
      t2p1 t2
    by simp
  have served: "get_response_comments demo_env (request_of mo) ''c1'' 1 10 None =
      Inr \<lparr>page_num = 1, num_pages = 1, result_count = 1,
           payload = [demo_comment_data (CCComment reply1)]\<rparr>"
    by code_simp
  have run: "get_response_comments demo_env (request_of mo) ''c1'' 2 10 None =
      Inl PageNotFoundError"
    "get_comment_list demo_env (request_of mo) ''th2'' (Some True) 2 10 None =
      Inl PageNotFoundError"
    by code_simp+
  from first second third fourth fifth sixth seventh t2 kids served run show ?thesis
    by simp
qed

subsection \<open>Updates save only on a core field\<close>

lemma quiet_Nil [simp]: "quiet []"
  by (simp add: quiet_def persisted_def signal_fired_def)

lemma quiet_append [simp]: "quiet (xs @ ys) = (quiet xs \<and> quiet ys)"
  by (auto simp: quiet_def persisted_def signal_fired_def)

lemma dispatch_action_quiet: "quiet (snd (dispatch_action field v api cc ctx req))"
  by (auto simp: dispatch_action_def p_handle_following_field_def p_handle_abuse_flagged_field_def
        p_handle_voted_field_def p_handle_read_field_def p_handle_pinned_field_def Let_def
        quiet_def persisted_def signal_fired_def is_save_def is_signal_def
        split: sum.splits)

lemma do_extra_actions_quiet: "quiet (snd (p_do_extra_actions api cc rfs cleaned ctx req))"
proof (induction api cc rfs cleaned ctx req rule: p_do_extra_actions.induct)
  case (1 api cc rfs ctx req)
  then show ?case by simp
next
  case (2 api cc rfs field v rest ctx req)
  then show ?case
    using dispatch_action_quiet [of field v "setitem api field v" cc ctx req]
    by (auto split: sum.splits prod.splits)
qed

lemma do_extra_actions_quietD:
  "p_do_extra_actions api cc rfs cleaned ctx req = (r, evs) \<Longrightarrow> quiet evs"
  using do_extra_actions_quiet [of api cc rfs cleaned ctx req] by simp

lemma persisted_edit:
  "persisted ([SerializerSave cc, SignalSent name u cc] @ evs)"
  "signal_fired name ([SerializerSave cc, SignalSent name u cc] @ evs)"
  by (simp_all add: persisted_def signal_fired_def is_save_def is_signal_def)

lemma update_thread_quiet:
  "core_fields update_data (thread_actions_fields env) = [] \<Longrightarrow>
   quiet (snd (update_thread env req tid update_data))"
  by (auto simp: update_thread_def Let_def split: sum.splits prod.splits
        dest: do_extra_actions_quietD)

lemma update_comment_quiet:
  "core_fields update_data (comment_actions_fields env) = [] \<Longrightarrow>
   quiet (snd (update_comment env req cid update_data))"
  by (auto simp: update_comment_def Let_def split: sum.splits prod.splits
        dest: do_extra_actions_quietD)

lemma update_thread_saves:
  assumes "p_get_thread_and_context env req (PStr tid) [(''with_responses'', PBool True)] = Inr (t, ctx)"
    and "p_check_editable_fields env (CCThread t) update_data ctx = Inr ()"
    and "thread_serializer_errors env ctx (Some (CCThread t)) update_data = []"
    and "thread_actions_errors env update_data = []"
    and "core_fields update_data (thread_actions_fields env) \<noteq> []"
  shows "persisted (snd (update_thread env req tid update_data)) \<and>
         signal_fired ''thread_edited'' (snd (update_thread env req tid update_data))"
  using assms persisted_edit
  by (auto simp: update_thread_def Let_def split: sum.splits prod.splits)

lemma update_comment_saves:
  assumes "p_get_comment_and_context env req (PStr cid) = Inr (c, ctx)"
    and "p_check_editable_fields env (CCComment c) update_data ctx = Inr ()"
    and "comment_serializer_errors env ctx (Some (CCComment c)) update_data = []"
    and "comment_actions_errors env update_data = []"
    and "core_fields update_data (comment_actions_fields env) \<noteq> []"
  shows "persisted (snd (update_comment env req cid update_data)) \<and>
         signal_fired ''comment_edited'' (snd (update_comment env req cid update_data))"
  using assms persisted_edit
  by (auto simp: update_comment_def Let_def split: sum.splits prod.splits)

text \<open>
  C4. \<open>update_thread\<close> and \<open>update_comment\<close> save the record and send the edit signal
  (\<open>thread_edited\<close>, \<open>comment_edited\<close>) exactly when a core field changed. A changed
  core field is a key of the update data outside the fields of the actions form: the
  update data are the changes, and the code looks at its keys only. With action fields
  only, nothing is saved and no edit signal is sent, whatever else the call does. The
  equivalence is for an update that passes the retrieval, the check of the editable
  fields and the validation, which all come before the save.
\<close>

theorem save_iff_core_field:
  "(core_fields update_data (thread_actions_fields env) = [] \<longrightarrow>
      \<not> persisted (snd (update_thread env req tid update_data)) \<and>
      \<not> signal_fired ''thread_edited'' (snd (update_thread env req tid update_data))) \<and>
   (core_fields update_data (comment_actions_fields env) = [] \<longrightarrow>
      \<not> persisted (snd (update_comment env req cid update_data)) \<and>
      \<not> signal_fired ''comment_edited'' (snd (update_comment env req cid update_data))) \<and>
   (p_get_thread_and_context env req (PStr tid) [(''with_responses'', PBool True)] = Inr (t, ctx) \<and>
    p_check_editable_fields env (CCThread t) update_data ctx = Inr () \<and>
    thread_serializer_errors env ctx (Some (CCThread t)) update_data = [] \<and>
    thread_actions_errors env update_data = [] \<longrightarrow>
      (persisted (snd (update_thread env req tid update_data)) =
         (core_fields update_data (thread_actions_fields env) \<noteq> [])) \<and>
      (signal_fired ''thread_edited'' (snd (update_thread env req tid update_data)) =
         (core_fields update_data (thread_actions_fields env) \<noteq> []))) \<and>
   (p_get_comment_and_context env req (PStr cid) = Inr (c, ctx') \<and>
    p_check_editable_fields env (CCComment c) update_data ctx' = Inr () \<and>
    comment_serializer_errors env ctx' (Some (CCComment c)) update_data = [] \<and>
    comment_actions_errors env update_data = [] \<longrightarrow>
      (persisted (snd (update_comment env req cid update_data)) =
         (core_fields update_data (comment_actions_fields env) \<noteq> [])) \<and>
      (signal_fired ''comment_edited'' (snd (update_comment env req cid update_data)) =
         (core_fields update_data (comment_actions_fields env) \<noteq> [])))"
proof (intro conjI impI)
  assume "core_fields update_data (thread_actions_fields env) = []"
  then have "quiet (snd (update_thread env req tid update_data))"
    by (rule update_thread_quiet)
  then show "\<not> persisted (snd (update_thread env req tid update_data))"
    and "\<not> signal_fired ''thread_edited'' (snd (update_thread env req tid update_data))"
    by (simp_all add: quiet_def)
next
  assume "core_fields update_data (comment_actions_fields env) = []"
  then have "quiet (snd (update_comment env req cid update_data))"
    by (rule update_comment_quiet)
  then show "\<not> persisted (snd (update_comment env req cid update_data))"
    and "\<not> signal_fired ''comment_edited'' (snd (update_comment env req cid update_data))"
    by (simp_all add: quiet_def)
next
  assume h: "p_get_thread_and_context env req (PStr tid) [(''with_responses'', PBool True)] =
      Inr (t, ctx) \<and>
    p_check_editable_fields env (CCThread t) update_data ctx = Inr () \<and>
    thread_serializer_errors env ctx (Some (CCThread t)) update_data = [] \<and>
    thread_actions_errors env update_data = []"
  have no: "core_fields update_data (thread_actions_fields env) = [] \<Longrightarrow>
      \<not> persisted (snd (update_thread env req tid update_data)) \<and>
      \<not> signal_fired ''thread_edited'' (snd (update_thread env req tid update_data))"
    using update_thread_quiet [of update_data env req tid] by (simp add: quiet_def)
  have yes: "core_fields update_data (thread_actions_fields env) \<noteq> [] \<Longrightarrow>
      persisted (snd (update_thread env req tid update_data)) \<and>
      signal_fired ''thread_edited'' (snd (update_thread env req tid update_data))"
    using h update_thread_saves [of env req tid t ctx update_data] by blast
  show "persisted (snd (update_thread env req tid update_data)) =
         (core_fields update_data (thread_actions_fields env) \<noteq> [])"
    using no yes by blast
  show "signal_fired ''thread_edited'' (snd (update_thread env req tid update_data)) =
         (core_fields update_data (thread_actions_fields env) \<noteq> [])"
    using no yes by blast
next
  assume h: "p_get_comment_and_context env req (PStr cid) = Inr (c, ctx') \<and>
    p_check_editable_fields env (CCComment c) update_data ctx' = Inr () \<and>
    comment_serializer_errors env ctx' (Some (CCComment c)) update_data = [] \<and>
    comment_actions_errors env update_data = []"
  have no: "core_fields update_data (comment_actions_fields env) = [] \<Longrightarrow>
      \<not> persisted (snd (update_comment env req cid update_data)) \<and>
      \<not> signal_fired ''comment_edited'' (snd (update_comment env req cid update_data))"
    using update_comment_quiet [of update_data env req cid] by (simp add: quiet_def)
  have yes: "core_fields update_data (comment_actions_fields env) \<noteq> [] \<Longrightarrow>
      persisted (snd (update_comment env req cid update_data)) \<and>
      signal_fired ''comment_edited'' (snd (update_comment env req cid update_data))"
    using h update_comment_saves [of env req cid c ctx' update_data] by blast
  show "persisted (snd (update_comment env req cid update_data)) =
         (core_fields update_data (comment_actions_fields env) \<noteq> [])"
    using no yes by blast
  show "signal_fired ''comment_edited'' (snd (update_comment env req cid update_data)) =
         (core_fields update_data (comment_actions_fields env) \<noteq> [])"
    using no yes by blast
qed

theorem save_iff_core_field_witness:
  "\<not> persisted (snd (update_thread demo_env (request_of mo) ''th3'' [(''voted'', PBool True)])) \<and>
   \<not> signal_fired ''thread_edited''
        (snd (update_thread demo_env (request_of mo) ''th3'' [(''voted'', PBool True)])) \<and>
   \<not> persisted (snd (update_comment demo_env (request_of mo) ''c3'' [(''voted'', PBool True)])) \<and>
   \<not> signal_fired ''comment_edited''
        (snd (update_comment demo_env (request_of mo) ''c3'' [(''voted'', PBool True)])) \<and>
   persisted (snd (update_thread demo_env (request_of mo) ''th3''
                     [(''title'', PStr ''new''), (''voted'', PBool True)])) \<and>
   signal_fired ''thread_edited''
     (snd (update_thread demo_env (request_of mo) ''th3''
             [(''title'', PStr ''new''), (''voted'', PBool True)])) \<and>
   persisted (snd (update_comment demo_env (request_of mo) ''c3'' [(''raw_body'', PStr ''new'')])) \<and>
   signal_fired ''comment_edited''
     (snd (update_comment demo_env (request_of mo) ''c3'' [(''raw_body'', PStr ''new'')]))"
proof -
  let ?tctx = "get_context demo_env demo_course (request_of mo) (Some thread3)"
  let ?cctx = "get_context demo_env demo_course (request_of mo) (Some thread4)"
  have only_actions:
    "core_fields [(''voted'', PBool True)] (thread_actions_fields demo_env) = []"
    "core_fields [(''voted'', PBool True)] (comment_actions_fields demo_env) = []"
    by code_simp+
  have core:
    "core_fields [(''title'', PStr ''new''), (''voted'', PBool True)]
       (thread_actions_fields demo_env) \<noteq> []"
    "core_fields [(''raw_body'', PStr ''new'')] (comment_actions_fields demo_env) \<noteq> []"
    by code_simp+
  have th: "p_get_thread_and_context demo_env (request_of mo) (PStr ''th3'')
        [(''with_responses'', PBool True)] = Inr (thread3, ?tctx) \<and>
      p_check_editable_fields demo_env (CCThread thread3)
        [(''title'', PStr ''new''), (''voted'', PBool True)] ?tctx = Inr () \<and>
      thread_serializer_errors demo_env ?tctx (Some (CCThread thread3))
        [(''title'', PStr ''new''), (''voted'', PBool True)] = [] \<and>
      thread_actions_errors demo_env [(''title'', PStr ''new''), (''voted'', PBool True)] = []"
    by code_simp
  have co: "p_get_comment_and_context demo_env (request_of mo) (PStr ''c3'') =
        Inr (response2, ?cctx) \<and>
      p_check_editable_fields demo_env (CCComment response2) [(''raw_body'', PStr ''new'')] ?cctx
        = Inr () \<and>
      comment_serializer_errors demo_env ?cctx (Some (CCComment response2))
        [(''raw_body'', PStr ''new'')] = [] \<and>
      comment_actions_errors demo_env [(''raw_body'', PStr ''new'')] = []"
    by code_simp
  show ?thesis
    using save_iff_core_field
        [where env = demo_env and req = "request_of mo" and tid = "''th3''" and cid = "''c3''"
           and update_data = "[(''voted'', PBool True)]"]
      save_iff_core_field
        [where env = demo_env and req = "request_of mo" and tid = "''th3''"
           and update_data = "[(''title'', PStr ''new''), (''voted'', PBool True)]"
           and t = thread3 and ctx = ?tctx]
      save_iff_core_field
        [where env = demo_env and req = "request_of mo" and cid = "''c3''"
           and update_data = "[(''raw_body'', PStr ''new'')]" and c = response2 and ctx' = ?cctx]
      only_actions core th co
    by blast
qed

subsection \<open>The read override of updates\<close>

lemma map_of_setitem: "map_of (setitem d k v) k' = (if k' = k then Some v else map_of d k')"
  by (simp add: setitem_def update_conv')

text \<open>
  C5, as the code has it. A successful \<open>update_thread\<close> always reports \<open>read\<close> as
  True and \<open>unread_comment_count\<close> as 0 in the payload it returns, whatever the thread's
  read state and whatever the serializer and the actions put there. \<open>update_comment\<close>
  has no such override: it returns the serialized comment as the extra actions leave it.
\<close>

theorem update_thread_reports_read:
  "(update_thread env req tid update_data = (Inr api_thread, evs) \<longrightarrow>
      map_of api_thread ''read'' = Some (PBool True) \<and>
      map_of api_thread ''unread_comment_count'' = Some (PInt 0)) \<and>
   (update_comment env req cid update_data = (Inr api_comment, evs') \<longrightarrow>
      (\<exists>c ctx cc. p_get_comment_and_context env req (PStr cid) = Inr (c, ctx) \<and>
         fst (p_do_extra_actions (comment_serializer_data env ctx cc) cc (map fst update_data)
                (comment_actions_cleaned_data env update_data) ctx req) = Inr api_comment))"
proof (intro conjI impI)
  assume "update_thread env req tid update_data = (Inr api_thread, evs)"
  then obtain api where "api_thread =
      setitem (setitem api ''read'' (PBool True)) ''unread_comment_count'' (PInt 0)"
    by (auto simp: update_thread_def Let_def split: sum.splits prod.splits if_splits)
  then show "map_of api_thread ''read'' = Some (PBool True)"
    and "map_of api_thread ''unread_comment_count'' = Some (PInt 0)"
    by (simp_all add: map_of_setitem)
next
  assume "update_comment env req cid update_data = (Inr api_comment, evs')"
  then show "\<exists>c ctx cc. p_get_comment_and_context env req (PStr cid) = Inr (c, ctx) \<and>
         fst (p_do_extra_actions (comment_serializer_data env ctx cc) cc (map fst update_data)
                (comment_actions_cleaned_data env update_data) ctx req) = Inr api_comment"
    by (simp add: update_comment_def Let_def split: sum.splits prod.splits if_splits)
       (metis fst_conv)+
qed

theorem update_thread_reports_read_witness:
  "update_thread demo_env (request_of mo) ''th1'' [(''title'', PStr ''new'')] =
     (Inr [(''id'', PStr ''th1''), (''author'', PStr ''bob''), (''voted'', PBool False),
           (''vote_count'', PInt 3), (''read'', PBool True), (''unread_comment_count'', PInt 0)],
      [SerializerSave (CCThread thread1), SignalSent ''thread_edited'' mo (CCThread thread1)]) \<and>
   is_read thread1 = False \<and>
   map_of [(''id'', PStr ''th1''), (''author'', PStr ''bob''), (''voted'', PBool False),
           (''vote_count'', PInt 3), (''read'', PBool True), (''unread_comment_count'', PInt 0)]
     ''read'' = Some (PBool True) \<and>
   map_of [(''id'', PStr ''th1''), (''author'', PStr ''bob''), (''voted'', PBool False),
           (''vote_count'', PInt 3), (''read'', PBool True), (''unread_comment_count'', PInt 0)]
     ''unread_comment_count'' = Some (PInt 0)"
proof -
  have run: "update_thread demo_env (request_of mo) ''th1'' [(''title'', PStr ''new'')] =
     (Inr [(''id'', PStr ''th1''), (''author'', PStr ''bob''), (''voted'', PBool False),
           (''vote_count'', PInt 3), (''read'', PBool True), (''unread_comment_count'', PInt 0)],
      [SerializerSave (CCThread thread1), SignalSent ''thread_edited'' mo (CCThread thread1)])"
    by code_simp
  have unread: "is_read thread1 = False"
    by (simp add: thread1_def)
  show ?thesis
    using update_thread_reports_read [THEN conjunct1, rule_format, OF run] run unread
    by simp
qed

text \<open>
  C5 as stated fails for \<open>update_comment\<close>: the payload of an updated comment is not
  marked as read, whether the serialized comment has no read field or an unread one.
\<close>

theorem update_comment_not_marked_read:
  "fst (update_comment demo_env (request_of mo) ''c3'' [(''raw_body'', PStr ''new'')]) =
     Inr [(''id'', PStr ''c3''), (''author'', PStr ''bob''), (''voted'', PBool False),
          (''vote_count'', PInt 0), (''endorsed'', PBool False)] \<and>
   map_of [(''id'', PStr ''c3''), (''author'', PStr ''bob''), (''voted'', PBool False),
           (''vote_count'', PInt 0), (''endorsed'', PBool False)] ''read'' = None \<and>
   fst (update_comment (demo_env\<lparr>comment_serializer_data := \<lambda>ctx. demo_thread_data\<rparr>)
          (request_of mo) ''c3'' [(''raw_body'', PStr ''new'')]) =
     Inr [(''id'', PStr ''c3''), (''author'', PStr ''bob''), (''voted'', PBool False),
          (''vote_count'', PInt 3), (''read'', PBool False), (''unread_comment_count'', PInt 2)]"
  by code_simp

subsection \<open>An author that does not exist\<close>

text \<open>
  C6, as the code has it. When the request passes the checks that come before the author
  is looked up (at most one of topic list, text search and following; a valid
  \<open>order_by\<close>; \<open>order_direction\<close> \<open>desc\<close>; a course that resolves), an author filter
  naming a username that does not exist makes \<open>get_thread_list\<close> return the empty
  page, with no results and no error, whatever the remaining parameters are.
\<close>

theorem unknown_author_empty_page:
  assumes "exclusive_param_count a \<le> 1"
    and "order_by a \<in> {''last_activity_at'', ''comment_count'', ''vote_count''}"
    and "order_direction a = ''desc''"
    and "p_get_course env ckey (request_user req) = Inr crs"
    and "author a = Some name" and "name \<noteq> []" and "user_id_by_username env name = None"
  shows "get_thread_list env req ckey a =
           Inr \<lparr>page_num = 0, num_pages = 1, result_count = 0,
                payload = \<lparr>results = [], text_search_rewrite = PNone\<rparr>\<rparr>"
proof -
  obtain sk where "map_of cc_map (order_by a) = Some sk"
    using assms(2) by (auto simp: cc_map_def)
  moreover have "resolve_author env (author a) = None"
    using assms(5-7) by (simp add: resolve_author_def)
  ultimately show ?thesis
    using assms(1,3,4) by (simp add: get_thread_list_def Let_def empty_thread_page_def)
qed

theorem unknown_author_empty_page_witness:
  "get_thread_list demo_env (request_of alice) ''demo''
     (default_args\<lparr>author := Some ''ghost'', count_flagged := Some True, view := Some ''unread'',
                   page := 7\<rparr>) =
     Inr \<lparr>page_num = 0, num_pages = 1, result_count = 0,
          payload = \<lparr>results = [], text_search_rewrite = PNone\<rparr>\<rparr>"
proof -
  let ?a = "default_args\<lparr>author := Some ''ghost'', count_flagged := Some True,
                         view := Some ''unread'', page := 7\<rparr>"
  have 1: "exclusive_param_count ?a \<le> 1" by code_simp
  have 2: "order_by ?a \<in> {''last_activity_at'', ''comment_count'', ''vote_count''}"
    by (simp add: default_args_def)
  have 3: "order_direction ?a = ''desc''" by (simp add: default_args_def)
  have 4: "p_get_course demo_env ''demo'' (request_user (request_of alice)) = Inr demo_course"
    by code_simp
  have 5: "author ?a = Some ''ghost''" by simp
  have 6: "''ghost'' \<noteq> []" by simp
  have 7: "user_id_by_username demo_env ''ghost'' = None" by (simp add: demo_env_def)
  show ?thesis
    by (rule unknown_author_empty_page [OF 1 2 3 4 5 6 7])
qed

text \<open>
  C6 as stated fails: the result does depend on other parameters. With the same unknown
  author, an \<open>order_by\<close> outside the three keys is a ValidationError, and two of the
  exclusive filters together are a ValueError; both are raised before the author is
  looked up.
\<close>

theorem unknown_author_still_rejected:
  "user_id_by_username demo_env ''ghost'' = None \<and>
   get_thread_list demo_env (request_of alice) ''demo''
     (default_args\<lparr>author := Some ''ghost'', order_by := ''bogus''\<rparr>) =
     Inl (ValidationError [(''order_by'', [order_by_message ''bogus''])]) \<and>
   get_thread_list demo_env (request_of alice) ''demo''
     (default_args\<lparr>author := Some ''ghost'', topic_id_list := Some [''t1''],
                   text_search := Some ''exam''\<rparr>) = Inl ValueError"
  by code_simp

subsection \<open>Voting and taking the vote back\<close>

lemma getitem_setitem: "getitem (setitem d k v) k = Inr v"
  by (simp add: getitem_def setitem_def update_conv')

lemma getitem_setitem_other: "k' \<noteq> k \<Longrightarrow> getitem (setitem d k v) k' = getitem d k'"
  by (simp add: getitem_def setitem_def update_conv')

lemma setitem_twice: "setitem (setitem d k v) k w = setitem d k w"
  by (simp add: setitem_def)

lemma setitem_same: "getitem d k = Inr v \<Longrightarrow> setitem d k v = d"
  by (auto simp: getitem_def setitem_def update_triv split: option.splits)

lemma handle_voted:
  "getitem api ''vote_count'' = Inr (PInt n) \<Longrightarrow>
   p_handle_voted_field (PBool up) cc api req ctx =
     (Inr (setitem api ''vote_count'' (PInt (n + (if up then 1 else - 1)))),
      vote_events up cc req ctx)"
  by (simp add: p_handle_voted_field_def vote_events_def Let_def)

lemma voted_action:
  assumes "''voted'' \<in> set rfs" and "getitem api ''voted'' = Inr (PBool (\<not> up))"
    and "getitem api ''vote_count'' = Inr (PInt n)"
  shows "p_do_extra_actions api cc rfs [(''voted'', PBool up)] ctx req =
           (Inr (setitem (setitem api ''voted'' (PBool up)) ''vote_count''
                   (PInt (n + (if up then 1 else - 1)))),
            vote_events up cc req ctx)"
proof -
  have "getitem (setitem api ''voted'' (PBool up)) ''vote_count'' = Inr (PInt n)"
    using assms(3) by (simp add: getitem_setitem_other)
  then have "p_handle_voted_field (PBool up) cc (setitem api ''voted'' (PBool up)) req ctx =
      (Inr (setitem (setitem api ''voted'' (PBool up)) ''vote_count''
              (PInt (n + (if up then 1 else - 1)))),
       vote_events up cc req ctx)"
    by (rule handle_voted)
  then show ?thesis
    using assms(1,2) by (simp add: dispatch_action_def)
qed

text \<open>
  C8. On any thread or comment whose payload carries a vote count: applying the voted
  action with value true and then with value false brings \<open>vote_count\<close> back to its
  original value (the whole payload is the original one again), and each of the two calls
  sends a vote-tracking event. The same holds through the dispatcher
  \<open>p_do_extra_actions\<close> when \<open>voted\<close> is among the request fields and the payload says
  not voted, so that both values are changes.
\<close>

theorem vote_then_unvote:
  "(getitem api ''vote_count'' = Inr (PInt n) \<longrightarrow>
      p_handle_voted_field (PBool True) cc api req ctx =
        (Inr (setitem api ''vote_count'' (PInt (n + 1))), vote_events True cc req ctx) \<and>
      p_handle_voted_field (PBool False) cc (setitem api ''vote_count'' (PInt (n + 1))) req ctx =
        (Inr api, vote_events False cc req ctx)) \<and>
   (getitem api ''vote_count'' = Inr (PInt n) \<and> getitem api ''voted'' = Inr (PBool False) \<and>
    ''voted'' \<in> set rfs \<longrightarrow>
      p_do_extra_actions api cc rfs [(''voted'', PBool True)] ctx req =
        (Inr (setitem (setitem api ''voted'' (PBool True)) ''vote_count'' (PInt (n + 1))),
         vote_events True cc req ctx) \<and>
      p_do_extra_actions
          (setitem (setitem api ''voted'' (PBool True)) ''vote_count'' (PInt (n + 1)))
          cc rfs [(''voted'', PBool False)] ctx req =
        (Inr (setitem
                (setitem
                   (setitem (setitem api ''voted'' (PBool True)) ''vote_count'' (PInt (n + 1)))
                   ''voted'' (PBool False))
                ''vote_count'' (PInt n)),
         vote_events False cc req ctx)) \<and>
   TrackVotedEvent req (ctx_course ctx) cc ''up'' False \<in> set (vote_events True cc req ctx) \<and>
   TrackVotedEvent req (ctx_course ctx) cc ''up'' True \<in> set (vote_events False cc req ctx)"
proof (intro conjI impI)
  assume h: "getitem api ''vote_count'' = Inr (PInt n)"
  show "p_handle_voted_field (PBool True) cc api req ctx =
        (Inr (setitem api ''vote_count'' (PInt (n + 1))), vote_events True cc req ctx)"
    using handle_voted [OF h, where up = True] by simp
  have "p_handle_voted_field (PBool False) cc (setitem api ''vote_count'' (PInt (n + 1))) req ctx =
        (Inr (setitem (setitem api ''vote_count'' (PInt (n + 1))) ''vote_count'' (PInt n)),
         vote_events False cc req ctx)"
    using handle_voted [where api = "setitem api ''vote_count'' (PInt (n + 1))" and n = "n + 1"
          and up = False]
    by (simp add: getitem_setitem)
  then show "p_handle_voted_field (PBool False) cc (setitem api ''vote_count'' (PInt (n + 1)))
        req ctx = (Inr api, vote_events False cc req ctx)"
    using h by (simp add: setitem_twice setitem_same)
next
  assume h: "getitem api ''vote_count'' = Inr (PInt n) \<and>
    getitem api ''voted'' = Inr (PBool False) \<and> ''voted'' \<in> set rfs"
  let ?api1 = "setitem (setitem api ''voted'' (PBool True)) ''vote_count'' (PInt (n + 1))"
  show "p_do_extra_actions api cc rfs [(''voted'', PBool True)] ctx req =
        (Inr ?api1, vote_events True cc req ctx)"
    using h voted_action [where rfs = rfs and api = api and up = True and n = n] by simp
  have "getitem ?api1 ''voted'' = Inr (PBool (\<not> False))"
    by (simp add: getitem_setitem getitem_setitem_other)
  moreover have "getitem ?api1 ''vote_count'' = Inr (PInt (n + 1))"
    by (simp add: getitem_setitem)
  ultimately show "p_do_extra_actions ?api1 cc rfs [(''voted'', PBool False)] ctx req =
        (Inr (setitem (setitem ?api1 ''voted'' (PBool False)) ''vote_count'' (PInt n)),
         vote_events False cc req ctx)"
    using h voted_action [where rfs = rfs and api = ?api1 and up = False and n = "n + 1"] by simp
qed (simp_all add: vote_events_def)

theorem vote_then_unvote_witness:
  "p_handle_voted_field (PBool True) (CCThread thread3) (demo_thread_data (CCThread thread3))
     (request_of alice) (get_context demo_env demo_course (request_of alice) None) =
     (Inr (setitem (demo_thread_data (CCThread thread3)) ''vote_count'' (PInt 4)),
      vote_events True (CCThread thread3) (request_of alice)
        (get_context demo_env demo_course (request_of alice) None)) \<and>
   p_handle_voted_field (PBool False) (CCThread thread3)
     (setitem (demo_thread_data (CCThread thread3)) ''vote_count'' (PInt 4))
     (request_of alice) (get_context demo_env demo_course (request_of alice) None) =
     (Inr (demo_thread_data (CCThread thread3)),
      vote_events False (CCThread thread3) (request_of alice)
        (get_context demo_env demo_course (request_of alice) None)) \<and>
   p_do_extra_actions
     (setitem (setitem (demo_comment_data (CCComment response1)) ''voted'' (PBool True))
        ''vote_count'' (PInt 1))
     (CCComment response1) [''voted''] [(''voted'', PBool False)]
     (get_context demo_env demo_course (request_of alice) None) (request_of alice) =
     (Inr (demo_comment_data (CCComment response1)),
      vote_events False (CCComment response1) (request_of alice)
        (get_context demo_env demo_course (request_of alice) None))"
proof -
  let ?ctx = "get_context demo_env demo_course (request_of alice) None"
  have t: "getitem (demo_thread_data (CCThread thread3)) ''vote_count'' = Inr (PInt 3)"
    by code_simp
  have c: "getitem (demo_comment_data (CCComment response1)) ''vote_count'' = Inr (PInt 0) \<and>
      getitem (demo_comment_data (CCComment response1)) ''voted'' = Inr (PBool False) \<and>
      ''voted'' \<in> set [''voted'']"
    by code_simp
  have restored: "setitem
       (setitem
          (setitem (setitem (demo_comment_data (CCComment response1)) ''voted'' (PBool True))
             ''vote_count'' (PInt (0 + 1)))
          ''voted'' (PBool False))
       ''vote_count'' (PInt 0) = demo_comment_data (CCComment response1)"
    by code_simp
  show ?thesis
    using vote_then_unvote [where api = "demo_thread_data (CCThread thread3)" and n = 3
        and cc = "CCThread thread3" and req = "request_of alice" and ctx = ?ctx] t
      vote_then_unvote [where api = "demo_comment_data (CCComment response1)" and n = 0
        and cc = "CCComment response1" and req = "request_of alice" and ctx = ?ctx
        and rfs = "[''voted'']"] c restored
    by simp
qed

subsection \<open>The number of pages\<close>









subsection \<open>A view that is neither unread nor unanswered\<close>

lemma fetch_threads_view:
  "view a = Some v \<Longrightarrow> v \<notin> {''unread'', ''unanswered''} \<Longrightarrow>
   fetch_threads env req crs ctx (a\<lparr>view := None\<rparr>) sk aid = fetch_threads env req crs ctx a sk aid"
  by (simp add: fetch_threads_def base_query_params_def apply_view_def Let_def)

lemma thread_list_query_view:
  "view a = Some v \<Longrightarrow> v \<notin> {''unread'', ''unanswered''} \<Longrightarrow>
   thread_list_query env req crs ctx (a\<lparr>view := None\<rparr>) sk aid =
     thread_list_query env req crs ctx a sk aid"
  by (simp add: thread_list_query_def fetch_threads_view Let_def)

lemma thread_list_query_error:
  "thread_list_query env req crs ctx a sk aid = Inl (ValidationError errs) \<Longrightarrow> False"
  by (auto simp: thread_list_query_def Let_def split: if_splits sum.splits dest: serialize_error)

lemma thread_list_validation_errors:
  assumes "get_thread_list env req ckey a = Inl (ValidationError errs)"
  shows "map fst errs = [''order_by''] \<or> map fst errs = [''order_direction'']"
proof -
  have "p_get_course env ckey (request_user req) \<noteq> Inl (ValidationError errs)"
    by (simp add: p_get_course_def split: option.splits)
  then show ?thesis
    using assms thread_list_query_error [of env req _ _ a _ _ errs]
    by (auto simp: get_thread_list_def Let_def split: if_splits option.splits sum.splits)
qed

text \<open>
  C10. A \<open>view\<close> other than \<open>unread\<close> and \<open>unanswered\<close> raises no validation error in
  \<open>get_thread_list\<close>: the value is dropped from the query to the comment service, and
  the call returns what the same call without a view filter returns.
\<close>

theorem invalid_view_is_dropped:
  assumes "view a = Some v" and "v \<noteq> ''unread''" and "v \<noteq> ''unanswered''"
  shows "get_thread_list env req ckey a = get_thread_list env req ckey (a\<lparr>view := None\<rparr>) \<and>
         (\<forall>errs. get_thread_list env req ckey a = Inl (ValidationError errs) \<longrightarrow>
                 ''view'' \<notin> set (map fst errs))"
proof
  show "get_thread_list env req ckey a = get_thread_list env req ckey (a\<lparr>view := None\<rparr>)"
    using assms
    by (simp add: get_thread_list_def exclusive_param_count_def thread_list_query_view
          split: option.splits sum.splits)
  show "\<forall>errs. get_thread_list env req ckey a = Inl (ValidationError errs) \<longrightarrow>
                 ''view'' \<notin> set (map fst errs)"
    using thread_list_validation_errors [of env req ckey a] by fastforce
qed

theorem invalid_view_is_dropped_witness:
  "get_thread_list demo_env (request_of alice) ''demo'' (default_args\<lparr>view := Some ''popular''\<rparr>) =
     Inr \<lparr>page_num = 1, num_pages = 1, result_count = 1,
          payload = \<lparr>results = [demo_thread_data (CCThread thread3)],
                     text_search_rewrite = PNone\<rparr>\<rparr> \<and>
   get_thread_list demo_env (request_of alice) ''demo'' default_args =
     Inr \<lparr>page_num = 1, num_pages = 1, result_count = 1,
          payload = \<lparr>results = [demo_thread_data (CCThread thread3)],
                     text_search_rewrite = PNone\<rparr>\<rparr>"
proof -
  let ?a = "default_args\<lparr>view := Some ''popular''\<rparr>"
  have 1: "view ?a = Some ''popular''" by simp
  have 2: "''popular'' \<noteq> ''unread''" and 3: "''popular'' \<noteq> ''unanswered''" by simp_all
  have same: "?a\<lparr>view := None\<rparr> = default_args"
    by (simp add: default_args_def)
  have plain: "get_thread_list demo_env (request_of alice) ''demo'' default_args =
     Inr \<lparr>page_num = 1, num_pages = 1, result_count = 1,
          payload = \<lparr>results = [demo_thread_data (CCThread thread3)],
                     text_search_rewrite = PNone\<rparr>\<rparr>"
    by code_simp
  show ?thesis
    using invalid_view_is_dropped [OF 1 2 3, of demo_env "request_of alice" "''demo''"]
    by (simp only: same plain simp_thms)
qed

subsection \<open>Topics that are not found\<close>

lemma set_by_category:
  "set (concat (map (get_sorted_xblocks xs) (sort (remdups (map discussion_category xs))))) = set xs"
  by (auto simp: get_sorted_xblocks_def)

lemma existing_courseware:
  assumes "ids \<noteq> {}"
  shows "snd (get_courseware_topics env req ckey crs (Some ids) counts) =
           courseware_ids env crs req \<inter> ids"
proof -
  let ?xs = "get_accessible_discussion_xblocks env crs (request_user req)"
  let ?sorted = "concat (map (get_sorted_xblocks ?xs) (sort (remdups (map discussion_category ?xs))))"
  have "snd (get_courseware_topics env req ckey crs (Some ids) counts) =
          set (filter (named (Some ids)) (map discussion_id ?sorted))"
    by (simp add: get_courseware_topics_def Let_def)
  also have "\<dots> = {x \<in> discussion_id ` set ?sorted. named (Some ids) x}"
    by (simp only: set_filter set_map)
  also have "\<dots> = {x \<in> discussion_id ` set ?xs. named (Some ids) x}"
    by (simp only: set_by_category)
  also have "\<dots> = courseware_ids env crs req \<inter> ids"
    using assms by (auto simp: named_def courseware_ids_def)
  finally show ?thesis .
qed

lemma existing_non_courseware:
  assumes "ids \<noteq> {}"
  shows "snd (get_non_courseware_topics env req ckey crs (Some ids) counts) =
           freestanding_ids crs \<inter> ids"
proof -
  have "snd (get_non_courseware_topics env req ckey crs (Some ids) counts) =
          set (filter (named (Some ids))
            (map (\<lambda>item. entry_id (snd item)) (sort_key entry_key (discussion_topics crs))))"
    by (simp add: get_non_courseware_topics_def Let_def case_prod_unfold)
  also have "\<dots> =
          {x \<in> (\<lambda>item. entry_id (snd item)) ` set (discussion_topics crs). named (Some ids) x}"
    by (simp only: set_filter set_map set_sort)
  also have "\<dots> = freestanding_ids crs \<inter> ids"
    using assms by (auto simp: named_def freestanding_ids_def)
  finally show ?thesis .
qed

lemma not_found_is_missing:
  assumes "ids \<noteq> {}"
  shows "ids - (snd (get_courseware_topics env req ckey crs (Some ids) counts) \<union>
                snd (get_non_courseware_topics env req ckey crs (Some ids) counts')) =
           {x \<in> ids. x \<notin> courseware_ids env crs req \<and> x \<notin> freestanding_ids crs}"
  by (auto simp: existing_courseware [OF assms] existing_non_courseware [OF assms])

text \<open>
  C7. When the topic-id filter of \<open>get_course_topics\<close> is not empty and holds at least
  one id that is neither a courseware-linked nor a freestanding topic of the course, the
  call fails with DiscussionNotFound. Its message is
  \<open>Discussion not found for '\<dots>'.\<close> with, between the quotes and separated by a comma
  and a space, the missing ids: every requested id that is in neither set, each once,
  and no requested id that is present. Their order is the one in which Python iterates
  over the set of missing ids.
\<close>

theorem missing_topics_not_found:
  assumes "p_get_course env ckey (request_user req) = Inr crs"
    and "finite ids"
    and "\<exists>x \<in> ids. x \<notin> courseware_ids env crs req \<and> x \<notin> freestanding_ids crs"
    and "iterates_sets env"
    and "missing = {x \<in> ids. x \<notin> courseware_ids env crs req \<and> x \<notin> freestanding_ids crs}"
  shows "get_course_topics env req ckey (Some ids) =
           Inl (DiscussionNotFoundError
                  (''Discussion not found for '' @ [CHR 0x27] @
                   join '', '' (set_iteration env missing) @ [CHR 0x27] @ ''.'')) \<and>
         set (set_iteration env missing) = missing \<and>
         distinct (set_iteration env missing)"
proof -
  from assms(3) have ne: "ids \<noteq> {}" by auto
  from assms(3,5) have miss: "missing \<noteq> {}" by auto
  from assms(2,5) have "finite missing" by simp
  then have it: "set (set_iteration env missing) = missing \<and> distinct (set_iteration env missing)"
    using assms(4) by (simp add: iterates_sets_def)
  let ?counts = "get_course_commentable_counts env (course_key crs)"
  have nf: "ids - (snd (get_courseware_topics env req ckey crs (Some ids) ?counts) \<union>
                   snd (get_non_courseware_topics env req ckey crs (Some ids) ?counts)) = missing"
    using not_found_is_missing [OF ne, of env req ckey crs ?counts ?counts] assms(5) by simp
  have nfne: "ids - (snd (get_courseware_topics env req ckey crs (Some ids) ?counts) \<union>
                     snd (get_non_courseware_topics env req ckey crs (Some ids) ?counts)) \<noteq> {}"
    using miss unfolding nf .
  then have sub: "\<not> ids \<subseteq> snd (get_courseware_topics env req ckey crs (Some ids) ?counts) \<union>
                        snd (get_non_courseware_topics env req ckey crs (Some ids) ?counts)"
    by simp
  have "get_course_topics env req ckey (Some ids) =
           Inl (DiscussionNotFoundError (not_found_message (set_iteration env missing)))"
    using assms(1) ne sub
    by (simp add: get_course_topics_def Let_def case_prod_beta no_filter_def nf)
  then show ?thesis
    using it by (simp add: not_found_message_def quoted_def)
qed

theorem missing_topics_not_found_witness:
  "get_course_topics demo_env (request_of alice) ''demo'' (Some {''t1'', ''t9'', ''t2'', ''t3''}) =
     Inl (DiscussionNotFoundError
            (''Discussion not found for '' @ [CHR 0x27] @ ''t3, t9'' @ [CHR 0x27] @ ''.'')) \<and>
   set (set_iteration demo_env {''t9'', ''t3''}) = {''t9'', ''t3''} \<and>
   get_course_topics demo_env (request_of alice) ''demo'' (Some {''t1'', ''t3''}) =
     Inl (DiscussionNotFoundError
            (''Discussion not found for '' @ [CHR 0x27] @ ''t3'' @ [CHR 0x27] @ ''.''))"
proof -
  have 1: "p_get_course demo_env ''demo'' (request_user (request_of alice)) = Inr demo_course"
    by code_simp
  have cw: "courseware_ids demo_env demo_course (request_of alice) = {''t2''}"
    by (simp add: courseware_ids_def demo_env_def demo_xblocks_def)
  have fs: "freestanding_ids demo_course = {''t1''}"
    by (simp add: freestanding_ids_def demo_course_def)
  have 4: "iterates_sets demo_env"
    by (simp add: iterates_sets_def demo_env_def)
  have 2: "finite {''t1'', ''t9'', ''t2'', ''t3''}" and s2: "finite {''t1'', ''t3''}"
    by simp_all
  have 3: "\<exists>x \<in> {''t1'', ''t9'', ''t2'', ''t3''}.
             x \<notin> courseware_ids demo_env demo_course (request_of alice) \<and>
             x \<notin> freestanding_ids demo_course"
    by (simp add: cw fs)
  have s3: "\<exists>x \<in> {''t1'', ''t3''}.
             x \<notin> courseware_ids demo_env demo_course (request_of alice) \<and>
             x \<notin> freestanding_ids demo_course"
    by (simp add: cw fs)
  have 5: "{''t9'', ''t3''} = {x \<in> {''t1'', ''t9'', ''t2'', ''t3''}.
             x \<notin> courseware_ids demo_env demo_course (request_of alice) \<and>
             x \<notin> freestanding_ids demo_course}"
    by (auto simp: cw fs)
  have s5: "{''t3''} = {x \<in> {''t1'', ''t3''}.
             x \<notin> courseware_ids demo_env demo_course (request_of alice) \<and>
             x \<notin> freestanding_ids demo_course}"
    by (auto simp: cw fs)
  have order: "set_iteration demo_env {''t9'', ''t3''} = [''t3'', ''t9'']"
    "set_iteration demo_env {''t3''} = [''t3'']"
    by code_simp+
  have run: "get_course_topics demo_env (request_of alice) ''demo''
       (Some {''t1'', ''t9'', ''t2'', ''t3''}) =
     Inl (DiscussionNotFoundError
            (''Discussion not found for '' @ [CHR 0x27] @ ''t3, t9'' @ [CHR 0x27] @ ''.''))"
    by code_simp
  show ?thesis
    using missing_topics_not_found [OF 1 2 3 4 5] missing_topics_not_found [OF 1 s2 s3 4 s5] run
    by (simp add: order)
qed

end
